theory Spec2Isabelle
  imports Main "HOL-Library.Char_ord" "HOL-Library.List_Lexorder"
begin

section \<open>Python values used by the portal\<close>

text \<open>
  The portal (\<^verbatim>\<open>server.py\<close>, \<^verbatim>\<open>api_server.py\<close>) keeps four JSON files, each one
  dictionary from an ID to a record, and works on dates and times given as strings.
  This section models the pieces of the Python library the code calls: string methods,
  \<^verbatim>\<open>int\<close>, number formatting, \<^verbatim>\<open>datetime.strptime\<close>, \<^verbatim>\<open>strftime\<close> and
  \<^verbatim>\<open>timedelta\<close> arithmetic. Strings are ASCII (\<open>char\<close> is a byte); a raise is a value
  \<open>Inl e\<close> of a sum type.
\<close>

datatype exn =
    ValueError
  | OverflowError
  | KeyError string
  | HTTPException nat string

subsection \<open>Strings\<close>

definition is_digit :: "char \<Rightarrow> bool" where
  "is_digit c \<longleftrightarrow> CHR ''0'' \<le> c \<and> c \<le> CHR ''9''"

definition digit_val :: "char \<Rightarrow> nat" where
  "digit_val c = of_char c - 48"

definition digit_char :: "nat \<Rightarrow> char" where
  "digit_char d = char_of (48 + d)"

text \<open>The value of a string of decimal digits, most significant digit first.\<close>

definition nat_of_digits :: "string \<Rightarrow> nat" where
  "nat_of_digits s = foldl (\<lambda>acc c. 10 * acc + digit_val c) 0 s"

text \<open>\<^verbatim>\<open>str(n)\<close> for \<open>n \<ge> 0\<close>.\<close>

fun str_nat :: "nat \<Rightarrow> string" where
  "str_nat n = (if n < 10 then [digit_char n] else str_nat (n div 10) @ [digit_char (n mod 10)])"

declare str_nat.simps [simp del]

text \<open>\<^verbatim>\<open>f"{n:0wd}"\<close>: the sign, then the digits padded with zeros to the width \<open>w\<close>.\<close>

definition zero_pad :: "nat \<Rightarrow> string \<Rightarrow> string" where
  "zero_pad w s = replicate (w - length s) CHR ''0'' @ s"

definition format_0d :: "nat \<Rightarrow> int \<Rightarrow> string" where
  "format_0d w n =
     (if n < 0 then CHR ''-'' # zero_pad (w - 1) (str_nat (nat (- n)))
      else zero_pad w (str_nat (nat n)))"

text \<open>\<^verbatim>\<open>s.lower()\<close> and \<^verbatim>\<open>s.upper()\<close> on ASCII.\<close>

definition lower_char :: "char \<Rightarrow> char" where
  "lower_char c = (if CHR ''A'' \<le> c \<and> c \<le> CHR ''Z'' then char_of (of_char c + (32::nat)) else c)"

definition lower :: "string \<Rightarrow> string" where
  "lower s = map lower_char s"

definition upper_char :: "char \<Rightarrow> char" where
  "upper_char c = (if CHR ''a'' \<le> c \<and> c \<le> CHR ''z'' then char_of (of_char c - (32::nat)) else c)"

definition upper :: "string \<Rightarrow> string" where
  "upper s = map upper_char s"

text \<open>\<^verbatim>\<open>sub in s\<close>: \<open>sub\<close> occurs in \<open>s\<close> as a contiguous substring.\<close>

fun is_prefix :: "string \<Rightarrow> string \<Rightarrow> bool" where
  "is_prefix [] s = True"
| "is_prefix (c # cs) [] = False"
| "is_prefix (c # cs) (d # ds) = (c = d \<and> is_prefix cs ds)"

fun str_in :: "string \<Rightarrow> string \<Rightarrow> bool" where
  "str_in sub [] = (sub = [])"
| "str_in sub (c # cs) = (is_prefix sub (c # cs) \<or> str_in sub cs)"

text \<open>\<^verbatim>\<open>s.split(sep)\<close> with a one-character separator.\<close>

fun split :: "char \<Rightarrow> string \<Rightarrow> string list" where
  "split sep [] = [[]]"
| "split sep (c # cs) =
     (if c = sep then [] # split sep cs
      else (case split sep cs of
              [] \<Rightarrow> [[c]]
            | p # ps \<Rightarrow> (c # p) # ps))"

text \<open>\<^verbatim>\<open>sep.join(parts)\<close>.\<close>

fun join :: "string \<Rightarrow> string list \<Rightarrow> string" where
  "join sep [] = []"
| "join sep [p] = p"
| "join sep (p # q # ps) = p @ sep @ join sep (q # ps)"

text \<open>
  \<^verbatim>\<open>int(s)\<close> on an ASCII string: white space (tab, line feed, vertical tab, form
  feed, carriage return and space) is stripped on both sides, one sign is allowed, and
  the rest is decimal digits with single underscores between digits. Anything else
  raises \<^verbatim>\<open>ValueError\<close>.
\<close>

definition is_space :: "char \<Rightarrow> bool" where
  "is_space c \<longleftrightarrow> c \<in> set [CHR 0x09, CHR 0x0A, CHR 0x0B, CHR 0x0C, CHR 0x0D, CHR '' '']"

definition strip :: "string \<Rightarrow> string" where
  "strip s = rev (dropWhile is_space (rev (dropWhile is_space s)))"

fun int_digits :: "string \<Rightarrow> string option" where
  "int_digits [] = None"
| "int_digits [c] = (if is_digit c then Some [c] else None)"
| "int_digits (c # d # ds) =
     (if is_digit c then
        (if d = CHR ''_'' then map_option ((#) c) (int_digits ds)
         else map_option ((#) c) (int_digits (d # ds)))
      else None)"

definition py_int :: "string \<Rightarrow> exn + int" where
  "py_int s =
     (case strip s of
        [] \<Rightarrow> Inl ValueError
      | c # cs \<Rightarrow>
          if c = CHR ''-'' then
            (case int_digits cs of None \<Rightarrow> Inl ValueError
             | Some ds \<Rightarrow> Inr (- int (nat_of_digits ds)))
          else if c = CHR ''+'' then
            (case int_digits cs of None \<Rightarrow> Inl ValueError
             | Some ds \<Rightarrow> Inr (int (nat_of_digits ds)))
          else
            (case int_digits (c # cs) of None \<Rightarrow> Inl ValueError
             | Some ds \<Rightarrow> Inr (int (nat_of_digits ds))))"

subsection \<open>Dates and times\<close>

text \<open>
  \<^verbatim>\<open>datetime.strptime(s, "%H:%M")\<close>. The format compiles to the regular expression
  \<^verbatim>\<open>(2[0-3]|[0-1]\d|\d):([0-5]\d|\d)\<close>, which has to match the whole string: one or
  two digits below 24, a colon, one or two digits below 60. The result is that time on
  1900-01-01; the model keeps a \<^verbatim>\<open>datetime\<close> of that origin as the number of minutes
  since 1900-01-01 00:00 (an \<open>int\<close>, since adding a \<^verbatim>\<open>timedelta\<close> can leave the day).
\<close>

definition digit_field :: "string \<Rightarrow> nat \<Rightarrow> nat \<Rightarrow> nat option" where
  "digit_field s lo hi =
     (if (length s = 1 \<or> length s = 2) \<and> list_all is_digit s
         \<and> lo \<le> nat_of_digits s \<and> nat_of_digits s \<le> hi
      then Some (nat_of_digits s) else None)"

definition strptime_HM :: "string \<Rightarrow> exn + int" where
  "strptime_HM s =
     (case split CHR '':'' s of
        [hs, ms] \<Rightarrow>
          (case (digit_field hs 0 23, digit_field ms 0 59) of
             (Some h, Some m) \<Rightarrow> Inr (int (h * 60 + m))
           | _ \<Rightarrow> Inl ValueError)
      | _ \<Rightarrow> Inl ValueError)"

text \<open>\<^verbatim>\<open>t.strftime("%H:%M")\<close>: the time of day, whatever the day.\<close>

definition strftime_HM :: "int \<Rightarrow> string" where
  "strftime_HM t =
     format_0d 2 ((t mod 1440) div 60) @ '':'' @ format_0d 2 ((t mod 1440) mod 60)"

text \<open>
  \<^verbatim>\<open>t + timedelta(minutes=n)\<close>. A \<^verbatim>\<open>datetime\<close> lies between 0001-01-01 00:00 and
  9999-12-31 23:59; a sum outside raises \<^verbatim>\<open>OverflowError\<close> (and so does a
  \<^verbatim>\<open>timedelta\<close> too large to build, whose sum would be outside as well).
  Day 1 of year 1 is 693595 days before 1900-01-01, the last day of year 9999 is
  2958463 days after it.
\<close>

definition datetime_min :: int where
  "datetime_min = - (693595 * 1440)"

definition datetime_max :: int where
  "datetime_max = 2958463 * 1440 + 1439"

definition add_minutes :: "int \<Rightarrow> int \<Rightarrow> exn + int" where
  "add_minutes t n =
     (if datetime_min \<le> t + n \<and> t + n \<le> datetime_max then Inr (t + n)
      else Inl OverflowError)"

text \<open>
  \<^verbatim>\<open>datetime.strptime(s, "%Y-%m-%d")\<close>: the regular expression is
  \<^verbatim>\<open>(\d\d\d\d)-(1[0-2]|0[1-9]|[1-9])-(3[0-1]|[1-2]\d|0[1-9]|[1-9]| [1-9])\<close> on the
  whole string, and the \<^verbatim>\<open>datetime\<close> constructor then refuses year 0 and a day the
  month does not have.
\<close>

definition is_leap :: "nat \<Rightarrow> bool" where
  "is_leap y \<longleftrightarrow> y mod 4 = 0 \<and> (y mod 100 \<noteq> 0 \<or> y mod 400 = 0)"

definition days_in_month :: "nat \<Rightarrow> nat \<Rightarrow> nat" where
  "days_in_month y m =
     (if m = 2 then (if is_leap y then 29 else 28)
      else if m \<in> set [4, 6, 9, 11] then 30 else 31)"

definition day_field :: "string \<Rightarrow> nat option" where
  "day_field s =
     (case s of
        [c, d] \<Rightarrow>
          (if c = CHR '' '' then
             (if is_digit d \<and> d \<noteq> CHR ''0'' then Some (digit_val d) else None)
           else digit_field s 1 31)
      | _ \<Rightarrow> digit_field s 1 31)"

definition strptime_Ymd :: "string \<Rightarrow> exn + (nat \<times> nat \<times> nat)" where
  "strptime_Ymd s =
     (case split CHR ''-'' s of
        [ys, ms, ds] \<Rightarrow>
          (if length ys = 4 \<and> list_all is_digit ys then
             (case (digit_field ms 1 12, day_field ds) of
                (Some m, Some d) \<Rightarrow>
                  (let y = nat_of_digits ys in
                   if 1 \<le> y \<and> d \<le> days_in_month y m then Inr (y, m, d)
                   else Inl ValueError)
              | _ \<Rightarrow> Inl ValueError)
           else Inl ValueError)
      | _ \<Rightarrow> Inl ValueError)"

text \<open>
  \<^verbatim>\<open>d.strftime("%A")\<close>: the English name of the week day, from the proleptic Gregorian
  ordinal of the date as \<^verbatim>\<open>datetime\<close> computes it (day 1 is Monday, 0001-01-01).
\<close>

definition days_before_year :: "nat \<Rightarrow> nat" where
  "days_before_year y = (y - 1) * 365 + (y - 1) div 4 - (y - 1) div 100 + (y - 1) div 400"

definition days_before_month :: "nat \<Rightarrow> nat \<Rightarrow> nat" where
  "days_before_month y m = sum_list (map (days_in_month y) [1..<m])"

definition toordinal :: "nat \<times> nat \<times> nat \<Rightarrow> nat" where
  "toordinal ymd = (case ymd of (y, m, d) \<Rightarrow> days_before_year y + days_before_month y m + d)"

definition weekday_names :: "string list" where
  "weekday_names = [''Monday'', ''Tuesday'', ''Wednesday'', ''Thursday'', ''Friday'',
                    ''Saturday'', ''Sunday'']"

definition strftime_A :: "nat \<times> nat \<times> nat \<Rightarrow> string" where
  "strftime_A ymd = weekday_names ! ((toordinal ymd + 6) mod 7)"

section \<open>The data model\<close>

text \<open>
  A JSON file holds one dictionary. Python dictionaries keep insertion order and the
  code depends on it (the first matching service, client or staff member wins), so a
  dictionary is an association list; \<open>dict_set\<close> is \<^verbatim>\<open>d[k] = v\<close>, which overwrites in
  place or appends.
\<close>

type_synonym 'v dict = "(string \<times> 'v) list"

definition dict_get :: "'v dict \<Rightarrow> string \<Rightarrow> 'v option" where
  "dict_get d k = map_of d k"

definition dict_contains :: "'v dict \<Rightarrow> string \<Rightarrow> bool" where
  "dict_contains d k \<longleftrightarrow> dict_get d k \<noteq> None"

fun dict_set :: "'v dict \<Rightarrow> string \<Rightarrow> 'v \<Rightarrow> 'v dict" where
  "dict_set [] k v = [(k, v)]"
| "dict_set ((k', v') # d) k v = (if k' = k then (k, v) # d else (k', v') # dict_set d k v)"

text \<open>
  The records. Prices are JSON numbers added with \<^verbatim>\<open>+\<close>; the model leaves their type
  \<open>'p\<close> open, so nothing depends on how the addition rounds. A field that the code fills
  from an \<^verbatim>\<open>Optional[str]\<close> argument is a \<open>string option\<close> (\<open>None\<close> is JSON null), and
  so is \<^verbatim>\<open>updated_at\<close>, which a new appointment does not have.
\<close>

record 'p service =
  svc_id :: string
  svc_name :: string
  svc_category :: string
  svc_duration_minutes :: int
  svc_price :: 'p
  svc_description :: string

record hours =
  hours_start :: string
  hours_end :: string

record staff_member =
  stf_id :: string
  stf_name :: string
  stf_role :: string
  stf_specialties :: "string list"
  stf_available_days :: "string list"
  stf_hours :: hours

record 'p client =
  cl_id :: string
  cl_name :: string
  cl_email :: "string option"
  cl_phone :: string
  cl_date_of_birth :: string
  cl_address :: "string option"
  cl_emergency_contact :: "string option"
  cl_medical_notes :: "string option"
  cl_created_at :: string
  cl_total_visits :: int
  cl_total_spent :: 'p

record 'p appointment =
  apt_id :: string
  apt_client_id :: string
  apt_client_name :: string
  apt_service_id :: string
  apt_service_name :: string
  apt_staff_id :: string
  apt_staff_name :: string
  apt_date :: string
  apt_time :: string
  apt_duration_minutes :: int
  apt_price :: 'p
  apt_status :: string
  apt_notes :: "string option"
  apt_created_at :: string
  apt_updated_at :: "string option"

text \<open>
  The data directory: one optional dictionary per file, \<open>None\<close> while the file does
  not exist. \<^verbatim>\<open>load_data\<close> reads a missing file as the empty dictionary and
  \<^verbatim>\<open>save_data\<close> overwrites the file (here: a record update of the store).
\<close>

record 'p store =
  appointments_file :: "'p appointment dict option"
  clients_file :: "'p client dict option"
  services_file :: "'p service dict option"
  staff_file :: "staff_member dict option"

definition load_data :: "'v dict option \<Rightarrow> 'v dict" where
  "load_data file = (case file of None \<Rightarrow> [] | Some d \<Rightarrow> d)"

definition default_services :: "('p::{zero,numeral}) service dict" where
  "default_services =
    [(''SVC001'', \<lparr>svc_id = ''SVC001'', svc_name = ''Botox Treatment'',
        svc_category = ''Injectables'', svc_duration_minutes = 30, svc_price = 400,
        svc_description = ''Wrinkle reduction with Botox injections''\<rparr>),
     (''SVC002'', \<lparr>svc_id = ''SVC002'', svc_name = ''Dermal Fillers'',
        svc_category = ''Injectables'', svc_duration_minutes = 45, svc_price = 650,
        svc_description = ''Volume restoration with hyaluronic acid fillers''\<rparr>),
     (''SVC003'', \<lparr>svc_id = ''SVC003'', svc_name = ''Hydrafacial'',
        svc_category = ''Facials'', svc_duration_minutes = 60, svc_price = 250,
        svc_description = ''Deep cleansing and hydration facial treatment''\<rparr>),
     (''SVC004'', \<lparr>svc_id = ''SVC004'', svc_name = ''Laser Hair Removal'',
        svc_category = ''Laser Treatments'', svc_duration_minutes = 30, svc_price = 300,
        svc_description = ''Permanent hair reduction using laser technology''\<rparr>),
     (''SVC005'', \<lparr>svc_id = ''SVC005'', svc_name = ''Chemical Peel'',
        svc_category = ''Skin Treatments'', svc_duration_minutes = 45, svc_price = 200,
        svc_description = ''Skin resurfacing treatment for improved texture and tone''\<rparr>),
     (''SVC006'', \<lparr>svc_id = ''SVC006'', svc_name = ''Microneedling'',
        svc_category = ''Skin Treatments'', svc_duration_minutes = 60, svc_price = 350,
        svc_description = ''Collagen induction therapy for skin rejuvenation''\<rparr>),
     (''SVC007'', \<lparr>svc_id = ''SVC007'', svc_name = ''CoolSculpting'',
        svc_category = ''Body Contouring'', svc_duration_minutes = 90, svc_price = 800,
        svc_description = ''Non-invasive fat reduction treatment''\<rparr>)]"

definition STF001 :: staff_member where
  "STF001 = \<lparr>stf_id = ''STF001'', stf_name = ''Dr. Maria Rodriguez'',
      stf_role = ''Medical Director'',
      stf_specialties = [''Injectables'', ''Laser Treatments''],
      stf_available_days = [''Monday'', ''Tuesday'', ''Wednesday'', ''Thursday'', ''Friday''],
      stf_hours = \<lparr>hours_start = ''09:00'', hours_end = ''17:00''\<rparr>\<rparr>"

definition STF002 :: staff_member where
  "STF002 = \<lparr>stf_id = ''STF002'', stf_name = ''Sarah Johnson'',
      stf_role = ''Licensed Aesthetician'',
      stf_specialties = [''Facials'', ''Skin Treatments''],
      stf_available_days = [''Tuesday'', ''Wednesday'', ''Thursday'', ''Friday'', ''Saturday''],
      stf_hours = \<lparr>hours_start = ''10:00'', hours_end = ''18:00''\<rparr>\<rparr>"

definition STF003 :: staff_member where
  "STF003 = \<lparr>stf_id = ''STF003'', stf_name = ''Jennifer Martinez'',
      stf_role = ''Nurse Practitioner'',
      stf_specialties = [''Injectables'', ''Body Contouring''],
      stf_available_days = [''Monday'', ''Wednesday'', ''Friday'', ''Saturday''],
      stf_hours = \<lparr>hours_start = ''09:00'', hours_end = ''17:00''\<rparr>\<rparr>"

definition default_staff :: "staff_member dict" where
  "default_staff = [(''STF001'', STF001), (''STF002'', STF002), (''STF003'', STF003)]"

definition initialize_default_data :: "('p::{zero,numeral}) store \<Rightarrow> 'p store" where
  "initialize_default_data st =
     (let st1 = (if services_file st = None then st\<lparr>services_file := Some default_services\<rparr>
                 else st)
      in if staff_file st1 = None then st1\<lparr>staff_file := Some default_staff\<rparr> else st1)"

text \<open>
  Both servers run \<^verbatim>\<open>initialize_default_data()\<close> when they start; on an empty data
  directory that gives the first state.
\<close>

definition empty_store :: "'p store" where
  "empty_store = \<lparr>appointments_file = None, clients_file = None,
                   services_file = None, staff_file = None\<rparr>"

definition initial_store :: "('p::{zero,numeral}) store" where
  "initial_store = initialize_default_data empty_store"

text \<open>\<^verbatim>\<open>not x\<close> for an optional string: \<^verbatim>\<open>None\<close> and the empty string are false.\<close>

definition falsy :: "string option \<Rightarrow> bool" where
  "falsy x \<longleftrightarrow> x = None \<or> x = Some []"

section \<open>Availability (\<^verbatim>\<open>api_server.py\<close>, \<^verbatim>\<open>GET /availability/{date}\<close>)\<close>

record time_slot =
  slot_time :: string
  slot_staff_id :: string
  slot_staff_name :: string

record availability_response =
  av_date :: string
  av_day_of_week :: string
  av_available_slots :: "time_slot list"

text \<open>
  The scheduled appointments of one staff member on the date, in the order of the
  appointments file (lines 170-173).
\<close>

definition staff_appointments :: "'p appointment dict \<Rightarrow> string \<Rightarrow> string \<Rightarrow> 'p appointment list" where
  "staff_appointments appointments staff_id date =
     filter (\<lambda>a. apt_staff_id a = staff_id \<and> apt_date a = date \<and> apt_status a = ''scheduled'')
       (map snd appointments)"

text \<open>
  One end of the working window (lines 176-180): the \<^verbatim>\<open>"HH:MM"\<close> string is split at the
  colon into exactly two integers, which are printed again with two digits each and
  parsed as a time. Every failure on the way is a \<^verbatim>\<open>ValueError\<close>.
\<close>

definition parse_hours :: "string \<Rightarrow> exn + int" where
  "parse_hours s =
     (case map py_int (split CHR '':'' s) of
        [Inr hour, Inr minute] \<Rightarrow> strptime_HM (format_0d 2 hour @ '':'' @ format_0d 2 minute)
      | _ \<Rightarrow> Inl ValueError)"

text \<open>
  The inner \<^verbatim>\<open>for apt in staff_appointments\<close> loop (lines 186-193): the slot is taken
  when its start instant lies in \<open>[apt_start, apt_end)\<close> of some appointment; the loop
  stops at the first such appointment, and parses the appointments before it.
\<close>

fun is_available :: "int \<Rightarrow> 'p appointment list \<Rightarrow> exn + bool" where
  "is_available current_time [] = Inr True"
| "is_available current_time (apt # apts) =
     (case strptime_HM (apt_time apt) of
        Inl e \<Rightarrow> Inl e
      | Inr apt_start \<Rightarrow>
          (case add_minutes apt_start (apt_duration_minutes apt) of
             Inl e \<Rightarrow> Inl e
           | Inr apt_end \<Rightarrow>
               if apt_start \<le> current_time \<and> current_time < apt_end then Inr False
               else is_available current_time apts))"

text \<open>
  The \<^verbatim>\<open>while current_time < end_time\<close> loop (lines 182-203), appending to
  \<^verbatim>\<open>available_slots\<close> and stepping by 30 minutes.
\<close>

function slot_loop ::
  "int \<Rightarrow> int \<Rightarrow> 'p appointment list \<Rightarrow> string \<Rightarrow> string \<Rightarrow> time_slot list \<Rightarrow> exn + time_slot list" where
  "slot_loop current_time end_time apts staff_id staff_name available_slots =
     (if current_time < end_time then
        (case is_available current_time apts of
           Inl e \<Rightarrow> Inl e
         | Inr ok \<Rightarrow>
             slot_loop (current_time + 30) end_time apts staff_id staff_name
               (if ok then
                  available_slots @ [\<lparr>slot_time = strftime_HM current_time,
                                       slot_staff_id = staff_id, slot_staff_name = staff_name\<rparr>]
                else available_slots))
      else Inr available_slots)"
  by pat_completeness auto
termination
  by (relation "measure (\<lambda>(current_time, end_time, _). nat (end_time - current_time))") auto

declare slot_loop.simps [simp del]

text \<open>The \<^verbatim>\<open>for staff_id, staff_member in available_staff.items()\<close> loop (lines 168-203).\<close>

fun staff_loop ::
  "staff_member dict \<Rightarrow> 'p appointment dict \<Rightarrow> string \<Rightarrow> time_slot list \<Rightarrow> exn + time_slot list" where
  "staff_loop [] appointments date available_slots = Inr available_slots"
| "staff_loop ((staff_id, member) # rest) appointments date available_slots =
     (case parse_hours (hours_start (stf_hours member)) of
        Inl e \<Rightarrow> Inl e
      | Inr current_time \<Rightarrow>
          (case parse_hours (hours_end (stf_hours member)) of
             Inl e \<Rightarrow> Inl e
           | Inr end_time \<Rightarrow>
               (case slot_loop current_time end_time
                       (staff_appointments appointments staff_id date)
                       staff_id (stf_name member) available_slots of
                  Inl e \<Rightarrow> Inl e
                | Inr available_slots' \<Rightarrow> staff_loop rest appointments date available_slots')))"

text \<open>
  The staff working on the day (lines 162-163) and the whole list \<^verbatim>\<open>available_slots\<close>
  as it stands after the loops (line 203), before the response cuts it.
\<close>

definition available_staff :: "staff_member dict \<Rightarrow> string \<Rightarrow> staff_member dict" where
  "available_staff staff day_name = filter (\<lambda>(sid, s). day_name \<in> set (stf_available_days s)) staff"

definition compute_slots ::
  "staff_member dict \<Rightarrow> 'p appointment dict \<Rightarrow> string \<Rightarrow> string \<Rightarrow> exn + time_slot list" where
  "compute_slots staff appointments date day_name =
     staff_loop (available_staff staff day_name) appointments date []"

text \<open>
  The endpoint. A date that does not parse raises \<^verbatim>\<open>HTTPException(400)\<close>; any other
  exception of the body is not caught. The service duration (lines 157-159) is looked up
  and never used. The response holds the first ten slots.
\<close>

definition check_availability :: "string \<Rightarrow> string option \<Rightarrow> 'p store \<Rightarrow> exn + availability_response" where
  "check_availability date service_id st =
     (case strptime_Ymd date of
        Inl e \<Rightarrow> Inl (HTTPException 400 ''Invalid date format. Use YYYY-MM-DD'')
      | Inr date_obj \<Rightarrow>
          (let day_name = strftime_A date_obj;
               staff = load_data (staff_file st);
               appointments = load_data (appointments_file st)
           in case compute_slots staff appointments date day_name of
                Inl e \<Rightarrow> Inl e
              | Inr available_slots \<Rightarrow>
                  Inr \<lparr>av_date = date, av_day_of_week = day_name,
                       av_available_slots = take 10 available_slots\<rparr>))"

section \<open>Booking (\<^verbatim>\<open>api_server.py\<close>, \<^verbatim>\<open>POST /book\<close>)\<close>

record booking_request =
  req_service_name :: string
  req_date :: string
  req_time :: string
  req_client_name :: string
  req_client_phone :: string
  req_client_email :: "string option"
  req_staff_id :: "string option"

record 'p confirmation =
  conf_appointment_id :: string
  conf_service :: string
  conf_date :: string
  conf_time :: string
  conf_provider :: string
  conf_price :: 'p
  conf_duration :: int
  conf_client_name :: string
  conf_client_phone :: string

record 'p booking_response =
  resp_success :: bool
  resp_appointment_id :: "string option"
  resp_message :: string
  resp_confirmation_details :: "'p confirmation option"

definition failure :: "string \<Rightarrow> 'p booking_response" where
  "failure message = \<lparr>resp_success = False, resp_appointment_id = None,
                        resp_message = message, resp_confirmation_details = None\<rparr>"

text \<open>Lines 224-230: the first service whose lower-cased name contains the lower-cased request.\<close>

definition find_service :: "string \<Rightarrow> 'p service dict \<Rightarrow> (string \<times> 'p service) option" where
  "find_service service_name services =
     find (\<lambda>(sid, svc). str_in (lower service_name) (lower (svc_name svc))) services"

text \<open>Lines 239-243: the ID of the first client with exactly this phone number.\<close>

definition find_client :: "string \<Rightarrow> 'p client dict \<Rightarrow> string option" where
  "find_client phone clients = map_option fst (find (\<lambda>(cid, client). cl_phone client = phone) clients)"

text \<open>Lines 269-272: the ID of the first staff member with the category among the specialties.\<close>

definition find_staff :: "string \<Rightarrow> staff_member dict \<Rightarrow> string option" where
  "find_staff category staff = map_option fst (find (\<lambda>(sid, s). category \<in> set (stf_specialties s)) staff)"

definition new_client_id :: "'p client dict \<Rightarrow> string" where
  "new_client_id clients = ''CL'' @ format_0d 4 (int (length clients + 1))"

definition new_appointment_id :: "'p appointment dict \<Rightarrow> string" where
  "new_appointment_id appointments = ''APT'' @ format_0d 4 (int (length appointments + 1))"

text \<open>Lines 250-262: the client record of a caller seen for the first time.\<close>

definition voice_client :: "string \<Rightarrow> booking_request \<Rightarrow> string \<Rightarrow> ('p::{zero,plus}) client" where
  "voice_client client_id booking now =
     \<lparr>cl_id = client_id, cl_name = req_client_name booking, cl_email = req_client_email booking,
      cl_phone = req_client_phone booking, cl_date_of_birth = [], cl_address = Some [],
      cl_emergency_contact = Some [], cl_medical_notes = Some [], cl_created_at = now,
      cl_total_visits = 0, cl_total_spent = 0\<rparr>"

text \<open>
  Lines 238-263: find the client or create one. A new client is written to the clients
  file at once (line 263). The result is the client ID, the dictionary \<^verbatim>\<open>clients\<close> as
  the rest of the function sees it, and the store.
\<close>

definition resolve_client ::
  "string \<Rightarrow> booking_request \<Rightarrow> ('p::{zero,plus}) client dict \<Rightarrow> 'p store
     \<Rightarrow> string \<times> 'p client dict \<times> 'p store" where
  "resolve_client now booking clients st =
     (case find_client (req_client_phone booking) clients of
        Some (c # cs) \<Rightarrow> (c # cs, clients, st)
      | _ \<Rightarrow>
          (let client_id = new_client_id clients;
               clients' = dict_set clients client_id (voice_client client_id booking now)
           in (client_id, clients', st\<lparr>clients_file := Some clients'\<rparr>)))"

text \<open>
  Lines 265-272: the staff ID of the request, or the first staff member with a matching
  specialty when the request gives none (or an empty one).
\<close>

definition resolve_staff :: "booking_request \<Rightarrow> 'p service \<Rightarrow> staff_member dict \<Rightarrow> string option" where
  "resolve_staff booking service staff =
     (if falsy (req_staff_id booking) then
        (case find_staff (svc_category service) staff of
           Some sid \<Rightarrow> Some sid
         | None \<Rightarrow> req_staff_id booking)
      else req_staff_id booking)"

text \<open>Lines 284-299: the appointment record of a booking by voice.\<close>

definition voice_appointment ::
  "string \<Rightarrow> string \<Rightarrow> 'p client \<Rightarrow> string \<Rightarrow> 'p service \<Rightarrow> string \<Rightarrow> staff_member
     \<Rightarrow> booking_request \<Rightarrow> string \<Rightarrow> 'p appointment" where
  "voice_appointment appointment_id client_id client service_id service staff_id member booking now =
     \<lparr>apt_id = appointment_id, apt_client_id = client_id,
      apt_client_name = cl_name client,
      apt_service_id = service_id,
      apt_service_name = svc_name service,
      apt_staff_id = staff_id,
      apt_staff_name = stf_name member,
      apt_date = req_date booking,
      apt_time = req_time booking,
      apt_duration_minutes = svc_duration_minutes service,
      apt_price = svc_price service,
      apt_status = ''scheduled'',
      apt_notes = Some ''Booked via voice AI'',
      apt_created_at = now,
      apt_updated_at = None\<rparr>"

text \<open>Lines 305-306: one more visit, and the price of the service added to the spending.\<close>

definition count_visit :: "('p::plus) client \<Rightarrow> 'p service \<Rightarrow> 'p client" where
  "count_visit client service =
     client\<lparr>cl_total_visits := cl_total_visits client + 1,
            cl_total_spent := cl_total_spent client + svc_price service\<rparr>"

text \<open>Lines 309-324: the answer to a booking that went through.\<close>

definition booked :: "string \<Rightarrow> 'p service \<Rightarrow> staff_member \<Rightarrow> booking_request \<Rightarrow> 'p booking_response" where
  "booked appointment_id service member booking =
     \<lparr>resp_success = True,
      resp_appointment_id = Some appointment_id,
      resp_message = ''Appointment booked successfully for '' @ req_client_name booking,
      resp_confirmation_details = Some
        \<lparr>conf_appointment_id = appointment_id,
         conf_service = svc_name service,
         conf_date = req_date booking,
         conf_time = req_time booking,
         conf_provider = stf_name member,
         conf_price = svc_price service,
         conf_duration = svc_duration_minutes service,
         conf_client_name = req_client_name booking,
         conf_client_phone = req_client_phone booking\<rparr>\<rparr>"

text \<open>
  The body of the \<^verbatim>\<open>try\<close> block (lines 218-324). \<open>now_client\<close> and \<open>now_apt\<close> are the
  two readings of \<^verbatim>\<open>datetime.now().isoformat()\<close>. A dictionary lookup of a missing key
  raises \<^verbatim>\<open>KeyError\<close>; what was saved before a raise stays saved.
\<close>

definition book_appointment_body ::
  "string \<Rightarrow> string \<Rightarrow> booking_request \<Rightarrow> ('p::{zero,plus}) store
     \<Rightarrow> (exn + 'p booking_response) \<times> 'p store" where
  "book_appointment_body now_client now_apt booking st =
     (let clients = load_data (clients_file st);
          services = load_data (services_file st);
          staff = load_data (staff_file st);
          appointments = load_data (appointments_file st)
      in case find_service (req_service_name booking) services of
           None \<Rightarrow>
             (Inr (failure (''Service '' @ [CHR 0x27] @ req_service_name booking @ [CHR 0x27]
                            @ '' not found'')), st)
         | Some (service_id, service) \<Rightarrow>
             (case resolve_client now_client booking clients st of
                (client_id, clients, st) \<Rightarrow>
                  (case resolve_staff booking service staff of
                     None \<Rightarrow> (Inr (failure ''No staff available for this service''), st)
                   | Some staff_id \<Rightarrow>
                       if staff_id = [] \<or> \<not> dict_contains staff staff_id then
                         (Inr (failure ''No staff available for this service''), st)
                       else
                         (case dict_get clients client_id of
                            None \<Rightarrow> (Inl (KeyError client_id), st)
                          | Some client \<Rightarrow>
                         (case dict_get staff staff_id of
                            None \<Rightarrow> (Inl (KeyError staff_id), st)
                          | Some member \<Rightarrow>
                              (let apt_id = new_appointment_id appointments;
                                   appointment = voice_appointment apt_id client_id client
                                     service_id service staff_id member booking now_apt;
                                   appointments = dict_set appointments apt_id appointment;
                                   st = st\<lparr>appointments_file := Some appointments\<rparr>;
                                   clients = dict_set clients client_id (count_visit client service);
                                   st = st\<lparr>clients_file := Some clients\<rparr>
                               in (Inr (booked apt_id service member booking), st)))))))"

text \<open>
  \<^verbatim>\<open>str(e)\<close> of the exception caught. The body above raises nothing but \<^verbatim>\<open>KeyError\<close>,
  whose text is the \<^verbatim>\<open>repr\<close> of the key (here for a key without quotes or escapes).
\<close>

fun str_exn :: "exn \<Rightarrow> string" where
  "str_exn (KeyError k) = [CHR 0x27] @ k @ [CHR 0x27]"
| "str_exn e = []"

text \<open>The endpoint: \<^verbatim>\<open>except Exception\<close> (lines 326-330) turns every raise into a failure.\<close>

definition book_appointment ::
  "string \<Rightarrow> string \<Rightarrow> booking_request \<Rightarrow> ('p::{zero,plus}) store \<Rightarrow> 'p booking_response \<times> 'p store" where
  "book_appointment now_client now_apt booking st =
     (case book_appointment_body now_client now_apt booking st of
        (Inl e, st') \<Rightarrow> (failure (''Error booking appointment: '' @ str_exn e), st')
      | (Inr response, st') \<Rightarrow> (response, st'))"

text \<open>\<^verbatim>\<open>POST /appointment/{id}/cancel\<close> (lines 342-360).\<close>

definition api_cancel_appointment ::
  "string \<Rightarrow> string \<Rightarrow> string option \<Rightarrow> 'p store \<Rightarrow> (exn + string \<times> 'p appointment) \<times> 'p store" where
  "api_cancel_appointment now appointment_id reason st =
     (let appointments = load_data (appointments_file st)
      in case dict_get appointments appointment_id of
           None \<Rightarrow> (Inl (HTTPException 404 ''Appointment not found''), st)
         | Some apt \<Rightarrow>
             (let apt' = apt\<lparr>apt_status := ''cancelled'', apt_notes := reason,
                             apt_updated_at := Some now\<rparr>
              in (Inr (''Appointment '' @ appointment_id @ '' cancelled'', apt'),
                  st\<lparr>appointments_file := Some (dict_set appointments appointment_id apt')\<rparr>)))"

section \<open>The agent tools (\<^verbatim>\<open>server.py\<close>)\<close>

text \<open>
  The tools answer with text. \<open>check_mark\<close> is the UTF-8 encoding of the check mark
  that starts a confirmation, \<open>nl\<close> the line feed. \<^verbatim>\<open>str(n)\<close> of an integer is
  \<open>str_int\<close>; how a price prints (\<^verbatim>\<open>f"{price:.2f}"\<close>) is a parameter \<open>fmt_price\<close>.
\<close>

definition check_mark :: string where
  "check_mark = [CHR 0xE2, CHR 0x9C, CHR 0x93]"

definition nl :: string where
  "nl = [CHR 0x0A]"

definition str_int :: "int \<Rightarrow> string" where
  "str_int n = (if n < 0 then CHR ''-'' # str_nat (nat (- n)) else str_nat (nat n))"

text \<open>\<^verbatim>\<open>create_appointment\<close> (lines 145-206); first the record of lines 186-201.\<close>

definition tool_appointment ::
  "string \<Rightarrow> string \<Rightarrow> 'p client \<Rightarrow> string \<Rightarrow> 'p service \<Rightarrow> string \<Rightarrow> staff_member
     \<Rightarrow> string \<Rightarrow> string \<Rightarrow> string option \<Rightarrow> string \<Rightarrow> 'p appointment" where
  "tool_appointment appointment_id client_id client service_id service staff_id member date time notes now =
     \<lparr>apt_id = appointment_id, apt_client_id = client_id,
      apt_client_name = cl_name client,
      apt_service_id = service_id,
      apt_service_name = svc_name service,
      apt_staff_id = staff_id,
      apt_staff_name = stf_name member,
      apt_date = date,
      apt_time = time,
      apt_duration_minutes = svc_duration_minutes service,
      apt_price = svc_price service,
      apt_status = ''scheduled'',
      apt_notes = notes,
      apt_created_at = now,
      apt_updated_at = None\<rparr>"

definition create_appointment ::
  "('p \<Rightarrow> string) \<Rightarrow> string \<Rightarrow> string \<Rightarrow> string \<Rightarrow> string \<Rightarrow> string \<Rightarrow> string \<Rightarrow> string option
     \<Rightarrow> 'p store \<Rightarrow> string \<times> 'p store" where
  "create_appointment fmt_price now client_id service_id staff_id date time notes st =
     (let appointments = load_data (appointments_file st);
          clients = load_data (clients_file st);
          services = load_data (services_file st);
          staff = load_data (staff_file st)
      in case dict_get clients client_id of
           None \<Rightarrow> (''Error: Client '' @ client_id @ '' not found'', st)
         | Some client \<Rightarrow>
        (case dict_get services service_id of
           None \<Rightarrow> (''Error: Service '' @ service_id @ '' not found'', st)
         | Some service \<Rightarrow>
        (case dict_get staff staff_id of
           None \<Rightarrow> (''Error: Staff member '' @ staff_id @ '' not found'', st)
         | Some member \<Rightarrow>
             (let apt_id = new_appointment_id appointments;
                  appointment = tool_appointment apt_id client_id client service_id service
                                  staff_id member date time notes now;
                  appointments = dict_set appointments apt_id appointment
              in (check_mark @ '' Appointment created successfully!'' @ nl @ nl
                    @ ''ID: '' @ apt_id @ nl
                    @ ''Client: '' @ cl_name client @ nl
                    @ ''Service: '' @ svc_name service @ nl
                    @ ''Provider: '' @ stf_name member @ nl
                    @ ''Date: '' @ date @ '' at '' @ time @ nl
                    @ ''Duration: '' @ str_int (svc_duration_minutes service) @ '' minutes'' @ nl
                    @ ''Price: $'' @ fmt_price (svc_price service),
                  st\<lparr>appointments_file := Some appointments\<rparr>)))))"

text \<open>\<^verbatim>\<open>update_appointment_status\<close> (lines 263-292).\<close>

definition valid_statuses :: "string list" where
  "valid_statuses = [''scheduled'', ''completed'', ''cancelled'', ''no-show'']"

definition not_found_message :: "string \<Rightarrow> string" where
  "not_found_message appointment_id = ''Error: Appointment '' @ appointment_id @ '' not found''"

definition invalid_status_message :: string where
  "invalid_status_message = ''Error: Invalid status. Must be one of: '' @ join '', '' valid_statuses"

definition update_appointment_status ::
  "string \<Rightarrow> string \<Rightarrow> string \<Rightarrow> string option \<Rightarrow> 'p store \<Rightarrow> string \<times> 'p store" where
  "update_appointment_status now appointment_id status notes st =
     (let appointments = load_data (appointments_file st)
      in case dict_get appointments appointment_id of
           None \<Rightarrow> (not_found_message appointment_id, st)
         | Some apt \<Rightarrow>
             if status \<notin> set valid_statuses then (invalid_status_message, st)
             else
               (let apt = apt\<lparr>apt_status := status\<rparr>;
                    apt = (if falsy notes then apt else apt\<lparr>apt_notes := notes\<rparr>);
                    apt = apt\<lparr>apt_updated_at := Some now\<rparr>
                in (check_mark @ '' Appointment '' @ appointment_id @ '' status updated to: ''
                      @ upper status,
                    st\<lparr>appointments_file := Some (dict_set appointments appointment_id apt)\<rparr>)))"

text \<open>\<^verbatim>\<open>cancel_appointment\<close> (lines 295-307).\<close>

definition cancel_appointment :: "string \<Rightarrow> string \<Rightarrow> string option \<Rightarrow> 'p store \<Rightarrow> string \<times> 'p store" where
  "cancel_appointment now appointment_id reason st =
     update_appointment_status now appointment_id ''cancelled''
       (case reason of
          Some (c # cs) \<Rightarrow> Some (''Cancellation reason: '' @ c # cs)
        | _ \<Rightarrow> Some ''Cancelled'')
       st"

text \<open>\<^verbatim>\<open>add_client\<close> (lines 314-362).\<close>

definition add_client ::
  "string \<Rightarrow> string \<Rightarrow> string \<Rightarrow> string \<Rightarrow> string \<Rightarrow> string option \<Rightarrow> string option \<Rightarrow> string option
     \<Rightarrow> ('p::{zero,plus}) store \<Rightarrow> string \<times> 'p store" where
  "add_client now name email phone date_of_birth address emergency_contact medical_notes st =
     (let clients = load_data (clients_file st);
          client_id = new_client_id clients;
          client = \<lparr>cl_id = client_id, cl_name = name, cl_email = Some email, cl_phone = phone,
                    cl_date_of_birth = date_of_birth, cl_address = address,
                    cl_emergency_contact = emergency_contact, cl_medical_notes = medical_notes,
                    cl_created_at = now, cl_total_visits = 0, cl_total_spent = 0\<rparr>
      in (check_mark @ '' Client added successfully!'' @ nl @ nl
            @ ''ID: '' @ client_id @ nl @ ''Name: '' @ name @ nl
            @ ''Email: '' @ email @ nl @ ''Phone: '' @ phone,
          st\<lparr>clients_file := Some (dict_set clients client_id client)\<rparr>))"

text \<open>
  \<^verbatim>\<open>check_availability\<close> of \<^verbatim>\<open>server.py\<close> (lines 622-678), the tool of that name. It
  reports the working hours and the scheduled appointments of the staff on duty; the
  appointments of one staff member are sorted by their time string, and an appointment
  whose time does not parse raises out of the tool.
\<close>

fun appointment_lines :: "'p appointment list \<Rightarrow> exn + string" where
  "appointment_lines [] = Inr []"
| "appointment_lines (apt # apts) =
     (case strptime_HM (apt_time apt) of
        Inl e \<Rightarrow> Inl e
      | Inr apt_start \<Rightarrow>
          (case add_minutes apt_start (apt_duration_minutes apt) of
             Inl e \<Rightarrow> Inl e
           | Inr apt_end \<Rightarrow>
               (case appointment_lines apts of
                  Inl e \<Rightarrow> Inl e
                | Inr rest \<Rightarrow>
                    Inr (''  '' @ apt_time apt @ '' - '' @ strftime_HM apt_end @ '': ''
                         @ apt_service_name apt @ '' ('' @ apt_client_name apt @ '')'' @ nl
                         @ rest))))"

fun staff_report :: "staff_member dict \<Rightarrow> 'p appointment dict \<Rightarrow> string \<Rightarrow> exn + string" where
  "staff_report [] appointments date = Inr []"
| "staff_report ((sid, member) # rest) appointments date =
     (let staff_apts = staff_appointments appointments sid date;
          head = stf_name member @ '' ('' @ stf_role member @ '')'' @ nl
                 @ ''Working hours: '' @ hours_start (stf_hours member) @ '' - ''
                 @ hours_end (stf_hours member) @ nl
      in case (if staff_apts \<noteq> [] then
                 (case appointment_lines (sort_key apt_time staff_apts) of
                    Inl e \<Rightarrow> Inl e
                  | Inr lines \<Rightarrow>
                      Inr (''Scheduled appointments ('' @ str_nat (length staff_apts) @ ''):'' @ nl
                           @ lines))
               else Inr (''No appointments scheduled - fully available'' @ nl)) of
           Inl e \<Rightarrow> Inl e
         | Inr body \<Rightarrow>
             (case staff_report rest appointments date of
                Inl e \<Rightarrow> Inl e
              | Inr others \<Rightarrow> Inr (head @ body @ nl @ others)))"

definition invalid_date_message :: string where
  "invalid_date_message = ''Error: Invalid date format. Use YYYY-MM-DD''"

definition tool_check_availability :: "string \<Rightarrow> string option \<Rightarrow> 'p store \<Rightarrow> exn + string" where
  "tool_check_availability date staff_id st =
     (let appointments = load_data (appointments_file st);
          staff = load_data (staff_file st)
      in case strptime_Ymd date of
           Inl e \<Rightarrow> Inr invalid_date_message
         | Inr date_obj \<Rightarrow>
             (let day_name = strftime_A date_obj;
                  on_duty = available_staff staff day_name;
                  header = ''AVAILABILITY FOR '' @ date @ '' ('' @ day_name @ '')'' @ nl
                           @ replicate 60 CHR ''='' @ nl @ nl;
                  report = (\<lambda>on_duty.
                     if on_duty = [] then Inr (''No staff members available on '' @ day_name @ ''s'')
                     else (case staff_report on_duty appointments date of
                             Inl e \<Rightarrow> Inl e
                           | Inr body \<Rightarrow> Inr (header @ body)))
              in case staff_id of
                   Some (c # cs) \<Rightarrow>
                     (case dict_get on_duty (c # cs) of
                        None \<Rightarrow> Inr (''Error: Staff member '' @ c # cs @ '' is not available on ''
                                      @ day_name @ ''s'')
                      | Some member \<Rightarrow> report [(c # cs, member)])
                 | _ \<Rightarrow> report on_duty))"

section \<open>Reachable states\<close>

text \<open>
  The states of the data directory that the two front ends can produce: the servers
  start on an empty directory, and every later state comes from one of the writing
  operations (a server restart runs \<^verbatim>\<open>initialize_default_data\<close> again).
\<close>

inductive reachable :: "('p::{zero,numeral}) store \<Rightarrow> bool" where
  start: "reachable initial_store"
| restart: "reachable st \<Longrightarrow> reachable (initialize_default_data st)"
| book: "reachable st \<Longrightarrow> book_appointment now_client now_apt booking st = (response, st')
           \<Longrightarrow> reachable st'"
| api_cancel: "reachable st \<Longrightarrow> api_cancel_appointment now appointment_id reason st = (result, st')
           \<Longrightarrow> reachable st'"
| create: "reachable st
           \<Longrightarrow> create_appointment fmt_price now client_id service_id staff_id date time notes st
                 = (msg, st')
           \<Longrightarrow> reachable st'"
| update: "reachable st \<Longrightarrow> update_appointment_status now appointment_id status notes st = (msg, st')
           \<Longrightarrow> reachable st'"
| cancel: "reachable st \<Longrightarrow> cancel_appointment now appointment_id reason st = (msg, st')
           \<Longrightarrow> reachable st'"
| add: "reachable st
           \<Longrightarrow> add_client now name email phone date_of_birth address emergency_contact
                 medical_notes st = (msg, st')
           \<Longrightarrow> reachable st'"

section \<open>Example states\<close>

text \<open>Concrete requests and stores, used to run the operations on.\<close>

definition example_booking :: booking_request where
  "example_booking = \<lparr>req_service_name = ''botox'', req_date = ''2024-01-02'', req_time = ''10:00'',
     req_client_name = ''Ann Lee'', req_client_phone = ''305-555-0100'', req_client_email = Some [],
     req_staff_id = None\<rparr>"

definition booked_once :: "int store" where
  "booked_once = snd (book_appointment ''2024-01-01T09:00:00'' ''2024-01-01T09:00:01'' example_booking initial_store)"

definition unknown_booking :: booking_request where
  "unknown_booking = example_booking\<lparr>req_service_name := ''massage''\<rparr>"

definition stranger_booking :: booking_request where
  "stranger_booking = example_booking\<lparr>req_staff_id := Some ''STF999''\<rparr>"

definition aesthetician_only :: "int store" where
  "aesthetician_only = initial_store\<lparr>staff_file := Some [(''STF002'', STF002)]\<rparr>"

definition first_appointment :: "int appointment" where
  "first_appointment =
     \<lparr>apt_id = ''APT0001'', apt_client_id = ''CL0001'', apt_client_name = ''Ann Lee'',
      apt_service_id = ''SVC001'', apt_service_name = ''Botox Treatment'',
      apt_staff_id = ''STF001'', apt_staff_name = ''Dr. Maria Rodriguez'',
      apt_date = ''2024-01-02'', apt_time = ''10:00'', apt_duration_minutes = 30,
      apt_price = 400, apt_status = ''scheduled'', apt_notes = Some ''Booked via voice AI'',
      apt_created_at = ''2024-01-01T09:00:01'', apt_updated_at = None\<rparr>"

definition slots_of :: "string \<Rightarrow> string \<Rightarrow> string list \<Rightarrow> time_slot list" where
  "slots_of staff_id staff_name ts =
     map (\<lambda>t. \<lparr>slot_time = t, slot_staff_id = staff_id, slot_staff_name = staff_name\<rparr>) ts"

definition facial_appointment :: "int appointment" where
  "facial_appointment =
     \<lparr>apt_id = ''APT0001'', apt_client_id = ''CL0001'', apt_client_name = ''Ann Lee'',
      apt_service_id = ''SVC003'', apt_service_name = ''Hydrafacial'',
      apt_staff_id = ''STF002'', apt_staff_name = ''Sarah Johnson'',
      apt_date = ''2024-01-02'', apt_time = ''10:00'', apt_duration_minutes = 60,
      apt_price = 250, apt_status = ''scheduled'', apt_notes = Some ''Booked via voice AI'',
      apt_created_at = ''2024-01-01T09:00:01'', apt_updated_at = None\<rparr>"

definition facial_tuesday_slots :: "time_slot list" where
  "facial_tuesday_slots =
     slots_of ''STF001'' ''Dr. Maria Rodriguez'' [''09:00'', ''09:30'', ''10:00'', ''10:30'', ''11:00'', ''11:30'', ''12:00'', ''12:30'', ''13:00'', ''13:30'', ''14:00'', ''14:30'', ''15:00'', ''15:30'', ''16:00'', ''16:30'']
     @ slots_of ''STF002'' ''Sarah Johnson'' [''11:00'', ''11:30'', ''12:00'', ''12:30'', ''13:00'', ''13:30'', ''14:00'', ''14:30'', ''15:00'', ''15:30'', ''16:00'', ''16:30'', ''17:00'', ''17:30'']"

definition half_past_ten :: time_slot where
  "half_past_ten = \<lparr>slot_time = ''10:30'', slot_staff_id = ''STF001'',
                     slot_staff_name = ''Dr. Maria Rodriguez''\<rparr>"

definition tuesday_response :: availability_response where
  "tuesday_response =
     \<lparr>av_date = ''2024-01-02'', av_day_of_week = ''Tuesday'',
      av_available_slots = slots_of ''STF001'' ''Dr. Maria Rodriguez''
        [''09:00'', ''09:30'', ''10:30'', ''11:00'', ''11:30'', ''12:00'', ''12:30'', ''13:00'',
         ''13:30'', ''14:00'']\<rparr>"

definition id_of :: "string \<Rightarrow> nat \<Rightarrow> string" where
  "id_of prefix n = prefix @ format_0d 4 (int n)"

definition sequential_ids :: "string \<Rightarrow> 'v dict \<Rightarrow> bool" where
  "sequential_ids prefix d \<longleftrightarrow> map fst d = map (id_of prefix) [1..<length d + 1]"

definition well_numbered :: "'p store \<Rightarrow> bool" where
  "well_numbered st \<longleftrightarrow>
     sequential_ids ''CL'' (load_data (clients_file st))
     \<and> sequential_ids ''APT'' (load_data (appointments_file st))"

definition mismatched_booking :: booking_request where
  "mismatched_booking =
     example_booking\<lparr>req_service_name := ''Hydrafacial'', req_staff_id := Some ''STF001''\<rparr>"

definition first_service :: "int service" where
  "first_service = \<lparr>svc_id = ''SVC001'', svc_name = ''Botox Treatment'',
        svc_category = ''Injectables'', svc_duration_minutes = 30, svc_price = 400,
        svc_description = ''Wrinkle reduction with Botox injections''\<rparr>"

definition third_service :: "int service" where
  "third_service = \<lparr>svc_id = ''SVC003'', svc_name = ''Hydrafacial'',
        svc_category = ''Facials'', svc_duration_minutes = 60, svc_price = 250,
        svc_description = ''Deep cleansing and hydration facial treatment''\<rparr>"

definition booking_by_specialty :: "int booking_response \<times> int store" where
  "booking_by_specialty = book_appointment ''t1'' ''t2'' example_booking initial_store"

definition booking_by_name :: "int booking_response \<times> int store" where
  "booking_by_name = book_appointment ''t1'' ''t2'' mismatched_booking initial_store"

definition booking_without_match :: "int booking_response \<times> int store" where
  "booking_without_match = book_appointment ''t1'' ''t2'' example_booking aesthetician_only"

definition booking_stranger :: "int booking_response \<times> int store" where
  "booking_stranger = book_appointment ''t1'' ''t2'' stranger_booking initial_store"

definition rebooking :: "int booking_response \<times> int store" where
  "rebooking = book_appointment ''t3'' ''t4'' example_booking booked_once"

text \<open>
  The invariant of the appointment store as the specification words it: two scheduled
  appointments of one staff member on one date do not overlap, an appointment
  occupying \<open>[time, time + duration_minutes)\<close>. An appointment whose time is not a
  time of day occupies nothing.
\<close>

definition interval :: "'p appointment \<Rightarrow> (int \<times> int) option" where
  "interval a =
     (case strptime_HM (apt_time a) of
        Inl e \<Rightarrow> None
      | Inr start \<Rightarrow> Some (start, start + apt_duration_minutes a))"

definition overlap :: "'p appointment \<Rightarrow> 'p appointment \<Rightarrow> bool" where
  "overlap a b =
     (case (interval a, interval b) of
        (Some (s1, e1), Some (s2, e2)) \<Rightarrow> max s1 s2 < min e1 e2
      | _ \<Rightarrow> False)"

definition conflict :: "'p appointment \<Rightarrow> 'p appointment \<Rightarrow> bool" where
  "conflict a b \<longleftrightarrow>
     apt_staff_id a = apt_staff_id b \<and> apt_date a = apt_date b
     \<and> apt_status a = ''scheduled'' \<and> apt_status b = ''scheduled'' \<and> overlap a b"

fun no_double_booking :: "'p appointment list \<Rightarrow> bool" where
  "no_double_booking [] = True"
| "no_double_booking (a # others) =
     (list_all (\<lambda>b. \<not> conflict a b) others \<and> no_double_booking others)"

definition tool_rebooking :: "string \<times> int store" where
  "tool_rebooking =
     create_appointment (\<lambda>p. str_int p @ ''.00'') ''t5'' ''CL0001'' ''SVC002'' ''STF001''
       ''2024-01-02'' ''10:15'' None booked_once"

definition first_client :: "int client" where
  "first_client =
     \<lparr>cl_id = ''CL0001'', cl_name = ''Ann Lee'', cl_email = Some [],
      cl_phone = ''305-555-0100'', cl_date_of_birth = [], cl_address = Some [],
      cl_emergency_contact = Some [], cl_medical_notes = Some [],
      cl_created_at = ''2024-01-01T09:00:00'', cl_total_visits = 1, cl_total_spent = 400\<rparr>"

definition second_service :: "int service" where
  "second_service = \<lparr>svc_id = ''SVC002'', svc_name = ''Dermal Fillers'',
        svc_category = ''Injectables'', svc_duration_minutes = 45, svc_price = 650,
        svc_description = ''Volume restoration with hyaluronic acid fillers''\<rparr>"

definition ten_sharp :: time_slot where
  "ten_sharp = \<lparr>slot_time = ''10:00'', slot_staff_id = ''STF001'',
                 slot_staff_name = ''Dr. Maria Rodriguez''\<rparr>"

definition unpadded_response :: availability_response where
  "unpadded_response =
     \<lparr>av_date = ''2024-1-2'', av_day_of_week = ''Tuesday'',
      av_available_slots = slots_of ''STF001'' ''Dr. Maria Rodriguez''
        [''09:00'', ''09:30'', ''10:00'', ''10:30'', ''11:00'', ''11:30'', ''12:00'', ''12:30'',
         ''13:00'', ''13:30'']\<rparr>"

section \<open>Dictionary facts\<close>

lemma dict_get_dict_set_same: "dict_get (dict_set d k v) k = Some v"
  by (induction d) (auto simp: dict_get_def)

lemma dict_get_dict_set_other: "k' \<noteq> k \<Longrightarrow> dict_get (dict_set d k v) k' = dict_get d k'"
  by (induction d) (auto simp: dict_get_def)

lemma dict_get_None_iff: "dict_get d k = None \<longleftrightarrow> k \<notin> set (map fst d)"
  by (simp add: dict_get_def map_of_eq_None_iff)

lemma dict_get_Some_mem: "dict_get d k = Some v \<Longrightarrow> (k, v) \<in> set d"
  by (simp add: dict_get_def map_of_SomeD)

lemma dict_set_fresh: "k \<notin> set (map fst d) \<Longrightarrow> dict_set d k v = d @ [(k, v)]"
  by (induction d) auto

lemma dict_set_keys: "k \<in> set (map fst d) \<Longrightarrow> map fst (dict_set d k v) = map fst d"
  by (induction d) fastforce+

lemma find_client_present: "find_client phone clients = Some cid \<Longrightarrow> cid \<in> set (map fst clients)"
proof -
  assume "find_client phone clients = Some cid"
  then obtain p where p: "find (\<lambda>(cid, client). cl_phone client = phone) clients = Some p" "fst p = cid"
    by (auto simp: find_client_def)
  then have "p \<in> set clients"
    by (metis find_Some_iff nth_mem)
  with p show ?thesis by force
qed

lemma resolve_client_store:
  "resolve_client now booking clients st = (client_id, clients', st') \<Longrightarrow>
     appointments_file st' = appointments_file st \<and> services_file st' = services_file st
     \<and> staff_file st' = staff_file st"
  by (auto simp: resolve_client_def Let_def split: option.splits list.splits)

lemma resolve_client_cases:
  assumes "resolve_client now booking clients st = (client_id, clients', st')"
  shows "(find_client (req_client_phone booking) clients = Some client_id \<and> client_id \<noteq> []
            \<and> clients' = clients \<and> st' = st)
         \<or> ((find_client (req_client_phone booking) clients = None
               \<or> find_client (req_client_phone booking) clients = Some [])
            \<and> client_id = new_client_id clients
            \<and> clients' = dict_set clients client_id (voice_client client_id booking now)
            \<and> st' = st\<lparr>clients_file := Some clients'\<rparr>)"
  using assms by (auto simp: resolve_client_def Let_def split: option.splits list.splits)

lemma find_client_get: "find_client phone clients = Some cid \<Longrightarrow> dict_get clients cid \<noteq> None"
  using find_client_present dict_get_None_iff by metis

lemma resolve_client_present:
  assumes "resolve_client now booking clients st = (client_id, clients', st')"
  shows "dict_get clients' client_id \<noteq> None"
  using resolve_client_cases [OF assms]
  by (auto simp: dict_get_dict_set_same dest: find_client_get)

lemma book_body_no_raise: "fst (book_appointment_body now_client now_apt booking st) \<noteq> Inl e"
  unfolding book_appointment_body_def Let_def
  by (auto split: option.splits prod.splits dest!: resolve_client_present simp: dict_contains_def)

section \<open>Status changes\<close>

lemma invalid_status_message_text:
  "invalid_status_message = ''Error: Invalid status. Must be one of: scheduled, completed, cancelled, no-show''"
  by (simp add: invalid_status_message_def valid_statuses_def)

text \<open>
  Claim C5. \<^verbatim>\<open>update_appointment_status\<close> fails in two ways: an absent ID gives the
  not-found text, and for a stored appointment a status outside scheduled, completed,
  cancelled, no-show gives the invalid-status text. In both cases nothing is saved: the
  store, and with it the prior status of every appointment, is the one before the call.
\<close>

theorem update_appointment_status_failures:
  "(dict_get (load_data (appointments_file st)) appointment_id = None \<longrightarrow>
      update_appointment_status now appointment_id status notes st
        = (''Error: Appointment '' @ appointment_id @ '' not found'', st))
   \<and> (dict_get (load_data (appointments_file st)) appointment_id \<noteq> None
        \<and> status \<notin> {''scheduled'', ''completed'', ''cancelled'', ''no-show''} \<longrightarrow>
      update_appointment_status now appointment_id status notes st = (invalid_status_message, st))"
  by (auto simp: update_appointment_status_def not_found_message_def valid_statuses_def Let_def)

lemma booked_once_appointments:
  "map fst (load_data (appointments_file booked_once)) = [''APT0001'']"
  by code_simp

text \<open>Both failures on the store after one booking: an unknown ID, and a bad status.\<close>

theorem update_appointment_status_failures_witness:
  "update_appointment_status ''t'' ''APT0002'' ''completed'' None booked_once
     = (''Error: Appointment APT0002 not found'', booked_once)
   \<and> update_appointment_status ''t'' ''APT0001'' ''done'' None booked_once
     = (invalid_status_message, booked_once)"
proof -
  have a: "dict_get (load_data (appointments_file booked_once)) ''APT0002'' = None"
    by (simp add: dict_get_None_iff booked_once_appointments)
  have b: "dict_get (load_data (appointments_file booked_once)) ''APT0001'' \<noteq> None"
    by (simp add: dict_get_None_iff booked_once_appointments)
  have c: "''done'' \<notin> {''scheduled'', ''completed'', ''cancelled'', ''no-show''}"
    by simp
  show ?thesis
    using update_appointment_status_failures [of booked_once "''APT0002''" "''t''" "''completed''" None]
      update_appointment_status_failures [of booked_once "''APT0001''" "''t''" "''done''" None] a b c
    by simp
qed

text \<open>
  The ID is looked up first: with an absent ID and a status outside the four values,
  the answer is the not-found text.
\<close>

lemma update_appointment_status_absent_and_invalid:
  "''done'' \<notin> {''scheduled'', ''completed'', ''cancelled'', ''no-show''}
   \<and> fst (update_appointment_status ''t'' ''APT0001'' ''done'' None (initial_store :: int store))
       = ''Error: Appointment APT0001 not found''
   \<and> fst (update_appointment_status ''t'' ''APT0001'' ''done'' None (initial_store :: int store))
       \<noteq> invalid_status_message"
  by (simp add: update_appointment_status_def not_found_message_def initial_store_def
        initialize_default_data_def empty_store_def load_data_def dict_get_def Let_def
        invalid_status_message_text)


section \<open>Booking: failures\<close>

lemma find_service_None:
  "(\<forall>(sid, svc) \<in> set services. \<not> str_in (lower name) (lower (svc_name svc)))
     \<Longrightarrow> find_service name services = None"
  by (auto simp: find_service_def find_None_iff)

lemma book_appointment_failure_cases:
  assumes "book_appointment now_client now_apt booking st = (response, st')"
      and "\<not> resp_success response"
  shows "resp_appointment_id response = None \<and> appointments_file st' = appointments_file st"
  using assms book_body_no_raise [of now_client now_apt booking st]
  unfolding book_appointment_def book_appointment_body_def Let_def
  by (auto simp: failure_def booked_def split: option.splits prod.splits if_splits sum.splits
           dest: resolve_client_store)

text \<open>
  Claim C7. When no service name of the catalog contains the requested name (both in
  lower case), \<^verbatim>\<open>book_appointment\<close> answers \<open>success = False\<close> without an appointment ID
  and saves nothing. It never raises: the endpoint is a total function into responses,
  its \<^verbatim>\<open>except Exception\<close> handler turning a raise of the body into a failure (and the
  body raises nothing, lemma \<open>book_body_no_raise\<close>); and whenever it answers
  \<open>success = False\<close>, there is no appointment ID and the appointments file is untouched.
\<close>

theorem book_appointment_unknown_service:
  "((\<forall>(sid, svc) \<in> set (load_data (services_file st)).
        \<not> str_in (lower (req_service_name booking)) (lower (svc_name svc)))
      \<longrightarrow> book_appointment now_client now_apt booking st
            = (\<lparr>resp_success = False, resp_appointment_id = None,
                resp_message = ''Service '' @ [CHR 0x27] @ req_service_name booking @ [CHR 0x27]
                                 @ '' not found'',
                resp_confirmation_details = None\<rparr>, st))
   \<and> (\<not> resp_success (fst (book_appointment now_client now_apt booking st))
      \<longrightarrow> resp_appointment_id (fst (book_appointment now_client now_apt booking st)) = None
          \<and> appointments_file (snd (book_appointment now_client now_apt booking st))
              = appointments_file st)"
proof (intro conjI impI)
  assume "\<forall>(sid, svc) \<in> set (load_data (services_file st)).
        \<not> str_in (lower (req_service_name booking)) (lower (svc_name svc))"
  then have "find_service (req_service_name booking) (load_data (services_file st)) = None"
    by (rule find_service_None)
  then show "book_appointment now_client now_apt booking st
            = (\<lparr>resp_success = False, resp_appointment_id = None,
                resp_message = ''Service '' @ [CHR 0x27] @ req_service_name booking @ [CHR 0x27]
                                 @ '' not found'',
                resp_confirmation_details = None\<rparr>, st)"
    by (simp add: book_appointment_def book_appointment_body_def Let_def failure_def)
next
  assume f: "\<not> resp_success (fst (book_appointment now_client now_apt booking st))"
  obtain response st' where r: "book_appointment now_client now_apt booking st = (response, st')"
    by (cases "book_appointment now_client now_apt booking st")
  with f book_appointment_failure_cases [OF r]
  show "resp_appointment_id (fst (book_appointment now_client now_apt booking st)) = None"
    and "appointments_file (snd (book_appointment now_client now_apt booking st))
              = appointments_file st"
    by simp_all
qed

lemma no_massage:
  "\<forall>(sid, svc) \<in> set (load_data (services_file (initial_store :: int store))).
        \<not> str_in (lower (req_service_name unknown_booking)) (lower (svc_name svc))"
  by code_simp

text \<open>
  On the seeded catalog: a request for \<open>massage\<close>, and a request for a staff member that
  does not exist.
\<close>

theorem book_appointment_unknown_service_witness:
  "book_appointment ''t1'' ''t2'' unknown_booking (initial_store :: int store)
     = (\<lparr>resp_success = False, resp_appointment_id = None,
         resp_message = ''Service '' @ [CHR 0x27] @ ''massage'' @ [CHR 0x27] @ '' not found'',
         resp_confirmation_details = None\<rparr>, initial_store)
   \<and> \<not> resp_success (fst (book_appointment ''t1'' ''t2'' stranger_booking (initial_store :: int store)))
   \<and> resp_appointment_id (fst (book_appointment ''t1'' ''t2'' stranger_booking (initial_store :: int store))) = None
   \<and> appointments_file (snd (book_appointment ''t1'' ''t2'' stranger_booking (initial_store :: int store)))
       = appointments_file (initial_store :: int store)"
proof -
  have n: "req_service_name unknown_booking = ''massage''"
    by (simp add: unknown_booking_def)
  have f: "\<not> resp_success (fst (book_appointment ''t1'' ''t2'' stranger_booking (initial_store :: int store)))"
    by code_simp
  show ?thesis
    using book_appointment_unknown_service [of "initial_store :: int store" unknown_booking "''t1''" "''t2''"]
      book_appointment_unknown_service [of "initial_store :: int store" stranger_booking "''t1''" "''t2''"]
      no_massage n f
    by simp
qed

section \<open>Booking: a new client without staff\<close>

lemma load_data_simps: "load_data None = []" "load_data (Some d) = d"
  by (simp_all add: load_data_def)

lemma find_client_None:
  "(\<forall>(cid, client) \<in> set clients. cl_phone client \<noteq> phone) \<Longrightarrow> find_client phone clients = None"
  by (auto simp: find_client_def find_None_iff)

lemma find_staff_None:
  "(\<forall>(sid, s) \<in> set staff. category \<notin> set (stf_specialties s)) \<Longrightarrow> find_staff category staff = None"
  by (auto simp: find_staff_def find_None_iff)

text \<open>
  Claim C10. The service resolves, no client has the phone number of the request, and
  the staff resolution fails (no staff ID given and no specialty matches, or a staff ID
  given that is not in the staff file). Then \<^verbatim>\<open>book_appointment\<close> answers
  \<open>success = False\<close>, and the clients file now holds the new client, with zero counters,
  under the next sequential ID: it was saved at line 263, before the staff check of line
  274. The appointments file is untouched.
\<close>

theorem book_appointment_keeps_new_client_without_staff:
  assumes "find_service (req_service_name booking) (load_data (services_file st))
             = Some (service_id, service)"
      and "\<forall>(cid, client) \<in> set (load_data (clients_file st)).
             cl_phone client \<noteq> req_client_phone booking"
      and "(falsy (req_staff_id booking)
              \<and> (\<forall>(sid, s) \<in> set (load_data (staff_file st)).
                     svc_category service \<notin> set (stf_specialties s)))
           \<or> (\<exists>sid. req_staff_id booking = Some sid \<and> sid \<noteq> []
                  \<and> \<not> dict_contains (load_data (staff_file st)) sid)"
  shows "book_appointment now_client now_apt booking st
           = (\<lparr>resp_success = False, resp_appointment_id = None,
               resp_message = ''No staff available for this service'',
               resp_confirmation_details = None\<rparr>,
              st\<lparr>clients_file := Some (dict_set (load_data (clients_file st))
                    (new_client_id (load_data (clients_file st)))
                    (voice_client (new_client_id (load_data (clients_file st))) booking now_client))\<rparr>)
         \<and> dict_get (load_data (clients_file (snd (book_appointment now_client now_apt booking st))))
               (new_client_id (load_data (clients_file st)))
             = Some \<lparr>cl_id = new_client_id (load_data (clients_file st)),
                     cl_name = req_client_name booking, cl_email = req_client_email booking,
                     cl_phone = req_client_phone booking, cl_date_of_birth = [],
                     cl_address = Some [], cl_emergency_contact = Some [],
                     cl_medical_notes = Some [], cl_created_at = now_client,
                     cl_total_visits = 0, cl_total_spent = 0\<rparr>
         \<and> appointments_file (snd (book_appointment now_client now_apt booking st))
             = appointments_file st"
proof -
  let ?clients = "load_data (clients_file st)"
  let ?id = "new_client_id ?clients"
  let ?clients' = "dict_set ?clients ?id (voice_client ?id booking now_client)"
  have c: "find_client (req_client_phone booking) ?clients = None"
    using assms(2) by (rule find_client_None)
  have rc: "resolve_client now_client booking ?clients st
              = (?id, ?clients', st\<lparr>clients_file := Some ?clients'\<rparr>)"
    by (simp add: resolve_client_def c Let_def)
  have rs: "case resolve_staff booking service (load_data (staff_file st)) of
              None \<Rightarrow> True
            | Some sid \<Rightarrow> sid = [] \<or> \<not> dict_contains (load_data (staff_file st)) sid"
    using assms(3) find_staff_None [of "load_data (staff_file st)" "svc_category service"]
    by (auto simp: resolve_staff_def falsy_def split: option.splits)
  have b: "book_appointment now_client now_apt booking st
             = (failure ''No staff available for this service'', st\<lparr>clients_file := Some ?clients'\<rparr>)"
    using rs
    by (auto simp: book_appointment_def book_appointment_body_def Let_def assms(1) rc
             split: option.splits)
  show ?thesis
    by (simp add: b failure_def load_data_def dict_get_dict_set_same voice_client_def)
qed

text \<open>
  On the seeded data: a request naming the unknown staff member \<open>STF999\<close>, and a Botox
  request when the only staff member does facials and skin treatments.
\<close>

theorem book_appointment_keeps_new_client_without_staff_witness:
  "book_appointment ''t1'' ''t2'' stranger_booking (initial_store :: int store)
     = (\<lparr>resp_success = False, resp_appointment_id = None,
         resp_message = ''No staff available for this service'',
         resp_confirmation_details = None\<rparr>,
        initial_store\<lparr>clients_file := Some [(''CL0001'',
           \<lparr>cl_id = ''CL0001'', cl_name = ''Ann Lee'', cl_email = Some [],
            cl_phone = ''305-555-0100'', cl_date_of_birth = [], cl_address = Some [],
            cl_emergency_contact = Some [], cl_medical_notes = Some [], cl_created_at = ''t1'',
            cl_total_visits = 0, cl_total_spent = 0\<rparr>)]\<rparr>)
   \<and> fst (book_appointment ''t1'' ''t2'' example_booking aesthetician_only)
       = \<lparr>resp_success = False, resp_appointment_id = None,
          resp_message = ''No staff available for this service'',
          resp_confirmation_details = None\<rparr>
   \<and> map fst (load_data (clients_file (snd (book_appointment ''t1'' ''t2'' example_booking aesthetician_only))))
       = [''CL0001'']"
proof -
  have s1: "find_service (req_service_name stranger_booking) (load_data (services_file (initial_store :: int store)))
          = Some (''SVC001'', hd (map snd default_services))"
    by code_simp
  have s2: "find_service (req_service_name example_booking) (load_data (services_file aesthetician_only))
          = Some (''SVC001'', hd (map snd default_services))"
    by code_simp
  have c1: "\<forall>(cid, client) \<in> set (load_data (clients_file (initial_store :: int store))).
             cl_phone client \<noteq> req_client_phone stranger_booking"
    by code_simp
  have c2: "\<forall>(cid, client) \<in> set (load_data (clients_file aesthetician_only)).
             cl_phone client \<noteq> req_client_phone example_booking"
    by code_simp
  have f1: "\<exists>sid. req_staff_id stranger_booking = Some sid \<and> sid \<noteq> []
                  \<and> \<not> dict_contains (load_data (staff_file (initial_store :: int store))) sid"
    by (rule exI [of _ "''STF999''"]) code_simp
  have f2: "falsy (req_staff_id example_booking)
              \<and> (\<forall>(sid, s) \<in> set (load_data (staff_file aesthetician_only)).
                     svc_category (hd (map snd (default_services :: int service dict))) \<notin> set (stf_specialties s))"
    by code_simp
  have e1: "dict_set (load_data (clients_file (initial_store :: int store)))
              (new_client_id (load_data (clients_file (initial_store :: int store))))
              (voice_client (new_client_id (load_data (clients_file (initial_store :: int store)))) stranger_booking ''t1'')
            = [(''CL0001'',
           \<lparr>cl_id = ''CL0001'', cl_name = ''Ann Lee'', cl_email = Some [],
            cl_phone = ''305-555-0100'', cl_date_of_birth = [], cl_address = Some [],
            cl_emergency_contact = Some [], cl_medical_notes = Some [], cl_created_at = ''t1'',
            cl_total_visits = 0, cl_total_spent = 0\<rparr>)]"
    by code_simp
  have e2: "map fst (dict_set (load_data (clients_file aesthetician_only))
              (new_client_id (load_data (clients_file aesthetician_only)))
              (voice_client (new_client_id (load_data (clients_file aesthetician_only))) example_booking ''t1''))
            = [''CL0001'']"
    by code_simp
  show ?thesis
    using book_appointment_keeps_new_client_without_staff [OF s1 c1 disjI2 [OF f1], of "''t1''" "''t2''"]
      book_appointment_keeps_new_client_without_staff [OF s2 c2 disjI1 [OF f2], of "''t1''" "''t2''"]
    by (simp add: e1 e2 load_data_simps)
qed

section \<open>Digits and times of day\<close>

lemma is_digit_iff: "is_digit c \<longleftrightarrow> 48 \<le> (of_char c :: nat) \<and> (of_char c :: nat) \<le> 57"
  by (simp add: is_digit_def less_eq_char_def)

lemma digit_val_le: "is_digit c \<Longrightarrow> digit_val c \<le> 9"
  unfolding is_digit_iff digit_val_def by arith

lemma digit_char_facts:
  assumes "d < 10"
  shows "is_digit (digit_char d)" and "digit_val (digit_char d) = d"
    and "digit_char d \<noteq> CHR '':''"
  using assms by (auto simp: is_digit_iff digit_val_def digit_char_def char_of_eq_iff take_bit_eq_mod)

lemma digit_field_bounds: "digit_field s lo hi = Some v \<Longrightarrow> lo \<le> v \<and> v \<le> hi"
  by (auto simp: digit_field_def split: if_splits)

lemma day_field_bounds: "day_field s = Some d \<Longrightarrow> 1 \<le> d \<and> d \<le> 31"
proof -
  assume a: "day_field s = Some d"
  have nz: "\<And>c. is_digit c \<Longrightarrow> c \<noteq> CHR ''0'' \<Longrightarrow> 1 \<le> digit_val c \<and> digit_val c \<le> 31"
  proof -
    fix c assume d: "is_digit c" and "c \<noteq> CHR ''0''"
    then have "(of_char c :: nat) \<noteq> of_char CHR ''0''"
      by (simp only: of_char_eq_iff not_False_eq_True)
    then have "(of_char c :: nat) \<noteq> 48"
      by simp
    with d show "1 \<le> digit_val c \<and> digit_val c \<le> 31"
      unfolding is_digit_iff digit_val_def by arith
  qed
  from a show ?thesis
    by (auto simp: day_field_def split: list.splits if_splits dest: digit_field_bounds nz)
qed

lemma strptime_Ymd_real_date:
  assumes "strptime_Ymd s = Inr (y, m, d)"
  shows "1 \<le> y \<and> 1 \<le> m \<and> m \<le> 12 \<and> 1 \<le> d \<and> d \<le> days_in_month y m"
  using assms
  by (auto simp: strptime_Ymd_def Let_def split: list.splits if_splits option.splits
           dest: digit_field_bounds day_field_bounds)

lemma strptime_Ymd_error: "strptime_Ymd s = Inl e \<Longrightarrow> e = ValueError"
  by (auto simp: strptime_Ymd_def Let_def split: list.splits if_splits option.splits)

section \<open>Dates that do not parse\<close>

text \<open>
  Claim C6, as the code has it. When \<^verbatim>\<open>strptime(date, "%Y-%m-%d")\<close> raises, the tool
  \<^verbatim>\<open>check_availability\<close> returns its error text and raises nothing, while the endpoint
  \<^verbatim>\<open>GET /availability/{date}\<close> raises \<^verbatim>\<open>HTTPException\<close> with status 400. Neither
  writes to the store (the functions return no store).
\<close>

theorem check_availability_invalid_date:
  "strptime_Ymd date = Inl e \<Longrightarrow>
     tool_check_availability date staff_id st = Inr ''Error: Invalid date format. Use YYYY-MM-DD''
     \<and> check_availability date service_id st
         = Inl (HTTPException 400 ''Invalid date format. Use YYYY-MM-DD'')"
  by (simp add: tool_check_availability_def check_availability_def invalid_date_message_def Let_def)

text \<open>February 30th, and a string that is no date at all.\<close>

theorem check_availability_invalid_date_witness:
  "tool_check_availability ''2024-02-30'' None (initial_store :: int store)
     = Inr ''Error: Invalid date format. Use YYYY-MM-DD''
   \<and> check_availability ''2024-02-30'' None (initial_store :: int store)
     = Inl (HTTPException 400 ''Invalid date format. Use YYYY-MM-DD'')
   \<and> tool_check_availability ''next Tuesday'' (Some ''STF002'') (initial_store :: int store)
     = Inr ''Error: Invalid date format. Use YYYY-MM-DD''
   \<and> check_availability ''next Tuesday'' (Some ''SVC001'') (initial_store :: int store)
     = Inl (HTTPException 400 ''Invalid date format. Use YYYY-MM-DD'')"
proof -
  have a: "strptime_Ymd ''2024-02-30'' = Inl ValueError" by code_simp
  have b: "strptime_Ymd ''next Tuesday'' = Inl ValueError" by code_simp
  show ?thesis
    using check_availability_invalid_date [OF a, of None "initial_store :: int store" None]
      check_availability_invalid_date [OF b, of "Some ''STF002''" "initial_store :: int store" "Some ''SVC001''"]
    by simp
qed

text \<open>The endpoint raises on February 30th: its result is an exception, not a response.\<close>

theorem check_availability_raises_on_invalid_date:
  "isl (check_availability ''2024-02-30'' None (initial_store :: int store))"
  by code_simp

lemma strptime_Ymd_unpadded: "strptime_Ymd ''2024-1-2'' = Inr (2024, 1, 2)"
  by code_simp

section \<open>Printing and parsing a time of day\<close>

lemma str_nat_lt10: "n < 10 \<Longrightarrow> str_nat n = [digit_char n]"
  by (simp add: str_nat.simps)

lemma str_nat_lt100: "10 \<le> n \<Longrightarrow> n < 100 \<Longrightarrow> str_nat n = [digit_char (n div 10), digit_char (n mod 10)]"
  by (subst str_nat.simps) (simp add: str_nat_lt10)

lemma digit_char_0: "digit_char 0 = CHR ''0''"
  by code_simp

lemma format_2d: "n < 100 \<Longrightarrow> format_0d 2 (int n) = [digit_char (n div 10), digit_char (n mod 10)]"
  by (cases "n < 10") (simp_all add: format_0d_def zero_pad_def str_nat_lt10 str_nat_lt100 digit_char_0)

lemma nat_of_two_digits:
  "a < 10 \<Longrightarrow> b < 10 \<Longrightarrow> nat_of_digits [digit_char a, digit_char b] = 10 * a + b"
  by (simp add: nat_of_digits_def digit_char_facts)

lemma digit_field_two:
  "n < 100 \<Longrightarrow> n \<le> hi \<Longrightarrow> digit_field [digit_char (n div 10), digit_char (n mod 10)] 0 hi = Some n"
  by (simp add: digit_field_def nat_of_two_digits digit_char_facts)

lemma split_colon_HM:
  "a \<noteq> CHR '':'' \<Longrightarrow> b \<noteq> CHR '':'' \<Longrightarrow> c \<noteq> CHR '':'' \<Longrightarrow> d \<noteq> CHR '':''
     \<Longrightarrow> split CHR '':'' ([a, b] @ '':'' @ [c, d]) = [[a, b], [c, d]]"
  by simp

lemma strptime_HM_format:
  assumes "h < 24" "m < 60"
  shows "strptime_HM (format_0d 2 (int h) @ '':'' @ format_0d 2 (int m)) = Inr (int (h * 60 + m))"
proof -
  have "split CHR '':'' (format_0d 2 (int h) @ '':'' @ format_0d 2 (int m))
          = [[digit_char (h div 10), digit_char (h mod 10)], [digit_char (m div 10), digit_char (m mod 10)]]"
    using assms by (simp add: format_2d digit_char_facts)
  then show ?thesis
    using assms by (simp add: strptime_HM_def digit_field_two)
qed

lemma strptime_HM_strftime_HM:
  assumes "0 \<le> t" "t < 1440"
  shows "strptime_HM (strftime_HM t) = Inr t"
proof -
  have h: "nat (t div 60) < 24" and m: "nat (t mod 60) < 60"
    using assms by auto
  have "strftime_HM t = format_0d 2 (int (nat (t div 60))) @ '':'' @ format_0d 2 (int (nat (t mod 60)))"
    using assms by (simp add: strftime_HM_def)
  then have "strptime_HM (strftime_HM t) = Inr (int (nat (t div 60) * 60 + nat (t mod 60)))"
    using strptime_HM_format [OF h m] by simp
  also have "int (nat (t div 60) * 60 + nat (t mod 60)) = t"
    using assms by (simp add: pos_imp_zdiv_nonneg_iff)
  finally show ?thesis .
qed

lemma strptime_HM_range: "strptime_HM s = Inr t \<Longrightarrow> 0 \<le> t \<and> t < 1440"
  by (auto simp: strptime_HM_def split: list.splits option.splits dest!: digit_field_bounds)

lemma parse_hours_range: "parse_hours s = Inr t \<Longrightarrow> 0 \<le> t \<and> t < 1440"
  by (auto simp: parse_hours_def split: list.splits sum.splits dest: strptime_HM_range)

section \<open>The slots of the availability endpoint\<close>

lemma add_minutes_Inr: "add_minutes t n = Inr e \<Longrightarrow> e = t + n"
  by (auto simp: add_minutes_def split: if_splits)

lemma is_available_True:
  "is_available t apts = Inr True \<Longrightarrow> apt \<in> set apts \<Longrightarrow>
     \<exists>apt_start. strptime_HM (apt_time apt) = Inr apt_start
        \<and> \<not> (apt_start \<le> t \<and> t < apt_start + apt_duration_minutes apt)"
proof (induction apts)
  case Nil
  then show ?case by simp
next
  case (Cons a apts)
  from Cons.prems(1) obtain s e where s: "strptime_HM (apt_time a) = Inr s"
    and e: "add_minutes s (apt_duration_minutes a) = Inr e"
    and free: "\<not> (s \<le> t \<and> t < e)" and rest: "is_available t apts = Inr True"
    by (auto split: sum.splits if_splits)
  show ?case
  proof (cases "apt = a")
    case True
    with s e free add_minutes_Inr [OF e] show ?thesis by auto
  next
    case False
    with Cons.prems(2) have "apt \<in> set apts" by simp
    with Cons.IH rest show ?thesis by blast
  qed
qed

lemma slot_loop_slots:
  "slot_loop current_time end_time apts staff_id staff_name available_slots = Inr out \<Longrightarrow>
     \<exists>new. out = available_slots @ new
       \<and> (\<forall>s \<in> set new. slot_staff_id s = staff_id \<and> slot_staff_name s = staff_name
             \<and> (\<exists>t. slot_time s = strftime_HM t \<and> current_time \<le> t \<and> t < end_time
                    \<and> is_available t apts = Inr True))"
proof (induction current_time end_time apts staff_id staff_name available_slots
       rule: slot_loop.induct)
  case (1 current_time end_time apts staff_id staff_name available_slots)
  show ?case
  proof (cases "current_time < end_time")
    case False
    with "1.prems" show ?thesis
      by (simp add: slot_loop.simps)
  next
    case True
    with "1.prems" obtain ok where ok: "is_available current_time apts = Inr ok"
      and rec: "slot_loop (current_time + 30) end_time apts staff_id staff_name
                  (if ok then available_slots @ [\<lparr>slot_time = strftime_HM current_time,
                       slot_staff_id = staff_id, slot_staff_name = staff_name\<rparr>]
                   else available_slots) = Inr out"
      by (subst (asm) slot_loop.simps) (auto split: sum.splits)
    from "1.IH" [OF True ok rec] obtain new where new: "out = (if ok then available_slots @ [\<lparr>slot_time = strftime_HM current_time,
                       slot_staff_id = staff_id, slot_staff_name = staff_name\<rparr>]
                   else available_slots) @ new"
      and all: "\<forall>s \<in> set new. slot_staff_id s = staff_id \<and> slot_staff_name s = staff_name
             \<and> (\<exists>t. slot_time s = strftime_HM t \<and> current_time + 30 \<le> t \<and> t < end_time
                    \<and> is_available t apts = Inr True)"
      by blast
    show ?thesis
    proof (cases ok)
      case False
      with new all show ?thesis by fastforce
    next
      case True
      let ?slot = "\<lparr>slot_time = strftime_HM current_time,
                       slot_staff_id = staff_id, slot_staff_name = staff_name\<rparr>"
      from True new have "out = available_slots @ (?slot # new)" by simp
      moreover have "\<forall>s \<in> set (?slot # new). slot_staff_id s = staff_id \<and> slot_staff_name s = staff_name
             \<and> (\<exists>t. slot_time s = strftime_HM t \<and> current_time \<le> t \<and> t < end_time
                    \<and> is_available t apts = Inr True)"
        using all ok True \<open>current_time < end_time\<close> by fastforce
      ultimately show ?thesis by blast
    qed
  qed
qed

lemma staff_loop_slots:
  "staff_loop staff appointments date available_slots = Inr out \<Longrightarrow>
     \<exists>new. out = available_slots @ new
       \<and> (\<forall>s \<in> set new. \<exists>member start_time end_time t.
             (slot_staff_id s, member) \<in> set staff \<and> slot_staff_name s = stf_name member
             \<and> parse_hours (hours_start (stf_hours member)) = Inr start_time
             \<and> parse_hours (hours_end (stf_hours member)) = Inr end_time
             \<and> slot_time s = strftime_HM t \<and> start_time \<le> t \<and> t < end_time
             \<and> is_available t (staff_appointments appointments (slot_staff_id s) date) = Inr True)"
proof (induction staff arbitrary: available_slots)
  case Nil
  then show ?case by simp
next
  case (Cons entry rest)
  obtain staff_id member where entry: "entry = (staff_id, member)"
    by (cases entry)
  from Cons.prems entry obtain start_time end_time mid
    where st: "parse_hours (hours_start (stf_hours member)) = Inr start_time"
      and en: "parse_hours (hours_end (stf_hours member)) = Inr end_time"
      and mid: "slot_loop start_time end_time (staff_appointments appointments staff_id date)
                  staff_id (stf_name member) available_slots = Inr mid"
      and rest: "staff_loop rest appointments date mid = Inr out"
    by (auto split: sum.splits)
  from slot_loop_slots [OF mid] obtain new1 where new1: "mid = available_slots @ new1"
    and all1: "\<forall>s \<in> set new1. slot_staff_id s = staff_id \<and> slot_staff_name s = stf_name member
             \<and> (\<exists>t. slot_time s = strftime_HM t \<and> start_time \<le> t \<and> t < end_time
                    \<and> is_available t (staff_appointments appointments staff_id date) = Inr True)"
    by blast
  from Cons.IH [OF rest] obtain new2 where new2: "out = mid @ new2"
    and all2: "\<forall>s \<in> set new2. \<exists>member start_time end_time t.
             (slot_staff_id s, member) \<in> set rest \<and> slot_staff_name s = stf_name member
             \<and> parse_hours (hours_start (stf_hours member)) = Inr start_time
             \<and> parse_hours (hours_end (stf_hours member)) = Inr end_time
             \<and> slot_time s = strftime_HM t \<and> start_time \<le> t \<and> t < end_time
             \<and> is_available t (staff_appointments appointments (slot_staff_id s) date) = Inr True"
    by blast
  have "out = available_slots @ (new1 @ new2)"
    using new1 new2 by simp
  moreover have "\<forall>s \<in> set (new1 @ new2). \<exists>member start_time end_time t.
             (slot_staff_id s, member) \<in> set (entry # rest) \<and> slot_staff_name s = stf_name member
             \<and> parse_hours (hours_start (stf_hours member)) = Inr start_time
             \<and> parse_hours (hours_end (stf_hours member)) = Inr end_time
             \<and> slot_time s = strftime_HM t \<and> start_time \<le> t \<and> t < end_time
             \<and> is_available t (staff_appointments appointments (slot_staff_id s) date) = Inr True"
  proof
    fix s assume "s \<in> set (new1 @ new2)"
    then consider "s \<in> set new1" | "s \<in> set new2" by auto
    then show "\<exists>member start_time end_time t.
             (slot_staff_id s, member) \<in> set (entry # rest) \<and> slot_staff_name s = stf_name member
             \<and> parse_hours (hours_start (stf_hours member)) = Inr start_time
             \<and> parse_hours (hours_end (stf_hours member)) = Inr end_time
             \<and> slot_time s = strftime_HM t \<and> start_time \<le> t \<and> t < end_time
             \<and> is_available t (staff_appointments appointments (slot_staff_id s) date) = Inr True"
    proof cases
      case 1
      with all1 st en entry show ?thesis by fastforce
    next
      case 2
      with all2 obtain m a b t where
        "(slot_staff_id s, m) \<in> set rest \<and> slot_staff_name s = stf_name m
             \<and> parse_hours (hours_start (stf_hours m)) = Inr a
             \<and> parse_hours (hours_end (stf_hours m)) = Inr b
             \<and> slot_time s = strftime_HM t \<and> a \<le> t \<and> t < b
             \<and> is_available t (staff_appointments appointments (slot_staff_id s) date) = Inr True"
        by blast
      then show ?thesis by (intro exI [of _ m] exI [of _ a] exI [of _ b] exI [of _ t]) simp
    qed
  qed
  ultimately show ?case by blast
qed

lemma compute_slots_slots:
  assumes "compute_slots staff appointments date day_name = Inr out" and "s \<in> set out"
  shows "\<exists>member start_time end_time t.
           (slot_staff_id s, member) \<in> set staff \<and> slot_staff_name s = stf_name member
           \<and> day_name \<in> set (stf_available_days member)
           \<and> parse_hours (hours_start (stf_hours member)) = Inr start_time
           \<and> parse_hours (hours_end (stf_hours member)) = Inr end_time
           \<and> strptime_HM (slot_time s) = Inr t \<and> start_time \<le> t \<and> t < end_time
           \<and> is_available t (staff_appointments appointments (slot_staff_id s) date) = Inr True"
proof -
  from assms staff_loop_slots [of "available_staff staff day_name" appointments date "[]" out]
  obtain member start_time end_time t where
    m: "(slot_staff_id s, member) \<in> set (available_staff staff day_name)"
    and n: "slot_staff_name s = stf_name member"
    and a: "parse_hours (hours_start (stf_hours member)) = Inr start_time"
    and b: "parse_hours (hours_end (stf_hours member)) = Inr end_time"
    and t: "slot_time s = strftime_HM t" "start_time \<le> t" "t < end_time"
    and f: "is_available t (staff_appointments appointments (slot_staff_id s) date) = Inr True"
    unfolding compute_slots_def by fastforce
  from m have m': "(slot_staff_id s, member) \<in> set staff" "day_name \<in> set (stf_available_days member)"
    by (auto simp: available_staff_def)
  from parse_hours_range [OF a] parse_hours_range [OF b] t
  have "0 \<le> t" "t < 1440" by auto
  then have "strptime_HM (slot_time s) = Inr t"
    using t(1) strptime_HM_strftime_HM by simp
  with m' n a b t f show ?thesis by blast
qed

lemma check_availability_Inr:
  assumes "check_availability date service_id st = Inr response"
  shows "\<exists>date_obj out. strptime_Ymd date = Inr date_obj
           \<and> av_day_of_week response = strftime_A date_obj
           \<and> compute_slots (load_data (staff_file st)) (load_data (appointments_file st)) date
                (strftime_A date_obj) = Inr out
           \<and> av_available_slots response = take 10 out"
  using assms by (auto simp: check_availability_def Let_def split: sum.splits)


text \<open>
  Claim C4, as the code has it. No slot in the response starts inside
  \<open>[time, time + duration_minutes)\<close> of a scheduled appointment of the same staff
  member that is stored under the date string of the request. The endpoint parses the
  date for the week day only and selects the appointments by comparing the date
  strings (lines 170-173), so an appointment stored under another spelling of the same
  day is not looked at.
\<close>

theorem check_availability_avoids_appointments:
  assumes "check_availability date service_id st = Inr response"
      and "slot \<in> set (av_available_slots response)"
      and "(k, apt) \<in> set (load_data (appointments_file st))"
      and "apt_staff_id apt = slot_staff_id slot"
      and "apt_date apt = date"
      and "apt_status apt = ''scheduled''"
  shows "\<exists>t apt_start.
           strptime_HM (slot_time slot) = Inr t
           \<and> strptime_HM (apt_time apt) = Inr apt_start
           \<and> \<not> (apt_start \<le> t \<and> t < apt_start + apt_duration_minutes apt)"
proof -
  from check_availability_Inr [OF assms(1)] obtain date_obj out where
    c: "compute_slots (load_data (staff_file st)) (load_data (appointments_file st)) date
                (strftime_A date_obj) = Inr out"
    and o: "av_available_slots response = take 10 out"
    by blast
  from assms(2) o have "slot \<in> set out"
    by (auto dest: in_set_takeD)
  from compute_slots_slots [OF c this] obtain t where
    t: "strptime_HM (slot_time slot) = Inr t"
    and f: "is_available t (staff_appointments (load_data (appointments_file st))
                             (slot_staff_id slot) date) = Inr True"
    by blast
  have "apt \<in> set (staff_appointments (load_data (appointments_file st)) (slot_staff_id slot) date)"
    using assms(3-6) by (force simp: staff_appointments_def)
  from is_available_True [OF f this] t show ?thesis
    by blast
qed

section \<open>The seeded roster on a Tuesday\<close>

lemma seeded_hours:
  "parse_hours ''09:00'' = Inr 540" "parse_hours ''17:00'' = Inr 1020"
  "parse_hours ''10:00'' = Inr 600" "parse_hours ''18:00'' = Inr 1080"
  by code_simp+

lemma ten_o_clock: "strptime_HM ''10:00'' = Inr 600"
  by code_simp

lemma half_hours:
  "strftime_HM 540 = ''09:00''" "strftime_HM 570 = ''09:30''" "strftime_HM 600 = ''10:00''" "strftime_HM 630 = ''10:30''" "strftime_HM 660 = ''11:00''" "strftime_HM 690 = ''11:30''" "strftime_HM 720 = ''12:00''" "strftime_HM 750 = ''12:30''" "strftime_HM 780 = ''13:00''" "strftime_HM 810 = ''13:30''" "strftime_HM 840 = ''14:00''" "strftime_HM 870 = ''14:30''" "strftime_HM 900 = ''15:00''" "strftime_HM 930 = ''15:30''" "strftime_HM 960 = ''16:00''" "strftime_HM 990 = ''16:30''" "strftime_HM 1020 = ''17:00''" "strftime_HM 1050 = ''17:30''"
  by code_simp+

lemma is_available_none: "is_available t [] = Inr True"
  by simp

lemma is_available_single:
  "strptime_HM (apt_time apt) = Inr apt_start
     \<Longrightarrow> datetime_min \<le> apt_start + apt_duration_minutes apt
     \<Longrightarrow> apt_start + apt_duration_minutes apt \<le> datetime_max
     \<Longrightarrow> is_available t [apt]
           = Inr (\<not> (apt_start \<le> t \<and> t < apt_start + apt_duration_minutes apt))"
  by (simp add: add_minutes_def)

lemma nine_to_five_free:
  "slot_loop 540 1020 [] staff_id staff_name available_slots
     = Inr (available_slots @ slots_of staff_id staff_name [''09:00'', ''09:30'', ''10:00'', ''10:30'', ''11:00'', ''11:30'', ''12:00'', ''12:30'', ''13:00'', ''13:30'', ''14:00'', ''14:30'', ''15:00'', ''15:30'', ''16:00'', ''16:30''])"
  by (simp add: slot_loop.simps half_hours slots_of_def)

lemma ten_to_six_free:
  "slot_loop 600 1080 [] staff_id staff_name available_slots
     = Inr (available_slots @ slots_of staff_id staff_name [''10:00'', ''10:30'', ''11:00'', ''11:30'', ''12:00'', ''12:30'', ''13:00'', ''13:30'', ''14:00'', ''14:30'', ''15:00'', ''15:30'', ''16:00'', ''16:30'', ''17:00'', ''17:30''])"
  by (simp add: slot_loop.simps half_hours slots_of_def)

lemma ten_to_six_busy_at_ten:
  assumes "apt_time apt = ''10:00''" "apt_duration_minutes apt = 60"
  shows "slot_loop 600 1080 [apt] staff_id staff_name available_slots
     = Inr (available_slots @ slots_of staff_id staff_name [''11:00'', ''11:30'', ''12:00'', ''12:30'', ''13:00'', ''13:30'', ''14:00'', ''14:30'', ''15:00'', ''15:30'', ''16:00'', ''16:30'', ''17:00'', ''17:30''])"
proof -
  have "is_available t [apt] = Inr (\<not> (600 \<le> t \<and> t < 660))" for t
    using is_available_single [of apt 600 t] assms
    by (simp add: ten_o_clock datetime_min_def datetime_max_def)
  then show ?thesis
    by (simp add: slot_loop.simps half_hours slots_of_def)
qed

lemma nine_to_five_busy_at_ten:
  assumes "apt_time apt = ''10:00''" "apt_duration_minutes apt = 30"
  shows "slot_loop 540 1020 [apt] staff_id staff_name available_slots
     = Inr (available_slots @ slots_of staff_id staff_name [''09:00'', ''09:30'', ''10:30'', ''11:00'', ''11:30'', ''12:00'', ''12:30'', ''13:00'', ''13:30'', ''14:00'', ''14:30'', ''15:00'', ''15:30'', ''16:00'', ''16:30''])"
proof -
  have "is_available t [apt] = Inr (\<not> (600 \<le> t \<and> t < 630))" for t
    using is_available_single [of apt 600 t] assms
    by (simp add: ten_o_clock datetime_min_def datetime_max_def)
  then show ?thesis
    by (simp add: slot_loop.simps half_hours slots_of_def)
qed

lemma tuesday_roster:
  "available_staff default_staff ''Tuesday'' = [(''STF001'', STF001), (''STF002'', STF002)]"
  by (simp add: available_staff_def default_staff_def STF001_def STF002_def STF003_def)

lemma seeded_tuesday_slots:
  assumes "apt_staff_id apt = ''STF002''" "apt_date apt = date" "apt_status apt = ''scheduled''"
      and "apt_time apt = ''10:00''" "apt_duration_minutes apt = 60"
  shows "compute_slots default_staff [(k, apt)] date ''Tuesday''
           = Inr (slots_of ''STF001'' ''Dr. Maria Rodriguez'' [''09:00'', ''09:30'', ''10:00'', ''10:30'', ''11:00'', ''11:30'', ''12:00'', ''12:30'', ''13:00'', ''13:30'', ''14:00'', ''14:30'', ''15:00'', ''15:30'', ''16:00'', ''16:30'']
                  @ slots_of ''STF002'' ''Sarah Johnson'' [''11:00'', ''11:30'', ''12:00'', ''12:30'', ''13:00'', ''13:30'', ''14:00'', ''14:30'', ''15:00'', ''15:30'', ''16:00'', ''16:30'', ''17:00'', ''17:30''])"
proof -
  have a: "staff_appointments [(k, apt)] ''STF001'' date = []"
    and b: "staff_appointments [(k, apt)] ''STF002'' date = [apt]"
    using assms(1-3) by (simp_all add: staff_appointments_def)
  show ?thesis
    by (simp add: compute_slots_def tuesday_roster a b STF001_def STF002_def seeded_hours
          nine_to_five_free ten_to_six_busy_at_ten [OF assms(4,5)])
qed

lemma aesthetician_tuesday_slots:
  assumes "apt_staff_id apt = ''STF002''" "apt_date apt = date" "apt_status apt = ''scheduled''"
      and "apt_time apt = ''10:00''" "apt_duration_minutes apt = 60"
  shows "compute_slots [(''STF002'', STF002)] [(k, apt)] date ''Tuesday''
           = Inr (slots_of ''STF002'' ''Sarah Johnson'' [''11:00'', ''11:30'', ''12:00'', ''12:30'', ''13:00'', ''13:30'', ''14:00'', ''14:30'', ''15:00'', ''15:30'', ''16:00'', ''16:30'', ''17:00'', ''17:30''])"
proof -
  have b: "staff_appointments [(k, apt)] ''STF002'' date = [apt]"
    using assms(1-3) by (simp add: staff_appointments_def)
  show ?thesis
    by (simp add: compute_slots_def available_staff_def b STF002_def seeded_hours
          ten_to_six_busy_at_ten [OF assms(4,5)])
qed

lemma slot_times:
  "strptime_HM ''09:00'' = Inr 540" "strptime_HM ''09:30'' = Inr 570" "strptime_HM ''10:00'' = Inr 600" "strptime_HM ''10:30'' = Inr 630" "strptime_HM ''11:00'' = Inr 660" "strptime_HM ''11:30'' = Inr 690" "strptime_HM ''12:00'' = Inr 720" "strptime_HM ''12:30'' = Inr 750" "strptime_HM ''13:00'' = Inr 780" "strptime_HM ''13:30'' = Inr 810" "strptime_HM ''14:00'' = Inr 840" "strptime_HM ''14:30'' = Inr 870" "strptime_HM ''15:00'' = Inr 900" "strptime_HM ''15:30'' = Inr 930" "strptime_HM ''16:00'' = Inr 960" "strptime_HM ''16:30'' = Inr 990" "strptime_HM ''17:00'' = Inr 1020" "strptime_HM ''17:30'' = Inr 1050"
  by code_simp+

lemma january_2nd:
  "strptime_Ymd ''2024-01-02'' = Inr (2024, 1, 2)" "strftime_A (2024, 1, 2) = ''Tuesday''"
  by code_simp
     (simp add: strftime_A_def toordinal_def days_before_year_def days_before_month_def
        weekday_names_def)

lemma january_2nd_Suc: "strftime_A (2024, Suc 0, 2) = ''Tuesday''"
  using january_2nd(2) by simp

text \<open>
  Claim C2, as the code has it. STF002 of the seeded roster works Tuesday to Saturday
  from 10:00 to 18:00. With one scheduled appointment of hers at 10:00 for 60 minutes on
  a Tuesday, the slot list that the loops of \<^verbatim>\<open>check_availability\<close> build (in steps of
  30 minutes) has neither her 10:00 slot nor her 10:30 slot: both start inside
  \<open>[10:00, 11:00)\<close>. It has her 11:00 slot, and no slot of hers before 10:00 or at or
  after 18:00. That is the list \<^verbatim>\<open>available_slots\<close> for the whole seeded roster; the
  same holds for the response of the endpoint when she is the only staff member on file
  (the response keeps the first ten slots of the list).
\<close>

theorem stf002_tuesday_availability:
  assumes "strptime_Ymd date = Inr date_obj" and "strftime_A date_obj = ''Tuesday''"
      and "apt_staff_id apt = ''STF002''" and "apt_date apt = date"
      and "apt_status apt = ''scheduled''"
      and "apt_time apt = ''10:00''" and "apt_duration_minutes apt = 60"
  shows "(\<exists>slots. compute_slots default_staff [(k, apt)] date (strftime_A date_obj) = Inr slots
            \<and> (\<forall>s \<in> set slots. slot_staff_id s = ''STF002'' \<longrightarrow>
                  slot_time s \<noteq> ''10:00'' \<and> slot_time s \<noteq> ''10:30'')
            \<and> \<lparr>slot_time = ''11:00'', slot_staff_id = ''STF002'',
                slot_staff_name = ''Sarah Johnson''\<rparr> \<in> set slots
            \<and> (\<forall>s \<in> set slots. slot_staff_id s = ''STF002'' \<longrightarrow>
                  (\<exists>t. strptime_HM (slot_time s) = Inr t \<and> 10 * 60 \<le> t \<and> t < 18 * 60)))
         \<and> (\<exists>response. check_availability date service_id
               \<lparr>appointments_file = Some [(k, apt)], clients_file = clients,
                services_file = services, staff_file = Some [(''STF002'', STF002)]\<rparr> = Inr response
            \<and> (\<forall>s \<in> set (av_available_slots response).
                  slot_time s \<noteq> ''10:00'' \<and> slot_time s \<noteq> ''10:30'')
            \<and> \<lparr>slot_time = ''11:00'', slot_staff_id = ''STF002'',
                slot_staff_name = ''Sarah Johnson''\<rparr> \<in> set (av_available_slots response)
            \<and> (\<forall>s \<in> set (av_available_slots response).
                  \<exists>t. strptime_HM (slot_time s) = Inr t \<and> 10 * 60 \<le> t \<and> t < 18 * 60))"
proof (rule conjI)
  show "\<exists>slots. compute_slots default_staff [(k, apt)] date (strftime_A date_obj) = Inr slots
            \<and> (\<forall>s \<in> set slots. slot_staff_id s = ''STF002'' \<longrightarrow>
                  slot_time s \<noteq> ''10:00'' \<and> slot_time s \<noteq> ''10:30'')
            \<and> \<lparr>slot_time = ''11:00'', slot_staff_id = ''STF002'',
                slot_staff_name = ''Sarah Johnson''\<rparr> \<in> set slots
            \<and> (\<forall>s \<in> set slots. slot_staff_id s = ''STF002'' \<longrightarrow>
                  (\<exists>t. strptime_HM (slot_time s) = Inr t \<and> 10 * 60 \<le> t \<and> t < 18 * 60))"
    unfolding assms(2) seeded_tuesday_slots [OF assms(3-7)]
    by (rule exI, rule conjI, rule refl) (simp add: slots_of_def slot_times)
next
  have "check_availability date service_id
               \<lparr>appointments_file = Some [(k, apt)], clients_file = clients,
                services_file = services, staff_file = Some [(''STF002'', STF002)]\<rparr>
          = Inr \<lparr>av_date = date, av_day_of_week = ''Tuesday'',
                 av_available_slots = slots_of ''STF002'' ''Sarah Johnson'' [''11:00'', ''11:30'', ''12:00'', ''12:30'', ''13:00'', ''13:30'', ''14:00'', ''14:30'', ''15:00'', ''15:30'']\<rparr>"
    by (simp add: check_availability_def assms(1,2) Let_def load_data_simps
          aesthetician_tuesday_slots [OF assms(3-7)] slots_of_def)
  then show "\<exists>response. check_availability date service_id
               \<lparr>appointments_file = Some [(k, apt)], clients_file = clients,
                services_file = services, staff_file = Some [(''STF002'', STF002)]\<rparr> = Inr response
            \<and> (\<forall>s \<in> set (av_available_slots response).
                  slot_time s \<noteq> ''10:00'' \<and> slot_time s \<noteq> ''10:30'')
            \<and> \<lparr>slot_time = ''11:00'', slot_staff_id = ''STF002'',
                slot_staff_name = ''Sarah Johnson''\<rparr> \<in> set (av_available_slots response)
            \<and> (\<forall>s \<in> set (av_available_slots response).
                  \<exists>t. strptime_HM (slot_time s) = Inr t \<and> 10 * 60 \<le> t \<and> t < 18 * 60)"
    by (simp add: slots_of_def slot_times)
qed

text \<open>Tuesday 2 January 2024, with a Hydrafacial booked for STF002 at 10:00.\<close>

theorem stf002_tuesday_availability_witness:
  "(\<exists>slots. compute_slots default_staff [(''APT0001'', facial_appointment)] ''2024-01-02''
               (strftime_A (2024, 1, 2)) = Inr slots
            \<and> (\<forall>s \<in> set slots. slot_staff_id s = ''STF002'' \<longrightarrow>
                  slot_time s \<noteq> ''10:00'' \<and> slot_time s \<noteq> ''10:30'')
            \<and> \<lparr>slot_time = ''11:00'', slot_staff_id = ''STF002'',
                slot_staff_name = ''Sarah Johnson''\<rparr> \<in> set slots
            \<and> (\<forall>s \<in> set slots. slot_staff_id s = ''STF002'' \<longrightarrow>
                  (\<exists>t. strptime_HM (slot_time s) = Inr t \<and> 10 * 60 \<le> t \<and> t < 18 * 60)))
   \<and> (\<exists>response. check_availability ''2024-01-02'' None
               \<lparr>appointments_file = Some [(''APT0001'', facial_appointment)], clients_file = None,
                services_file = None, staff_file = Some [(''STF002'', STF002)]\<rparr> = Inr response
            \<and> (\<forall>s \<in> set (av_available_slots response).
                  slot_time s \<noteq> ''10:00'' \<and> slot_time s \<noteq> ''10:30'')
            \<and> \<lparr>slot_time = ''11:00'', slot_staff_id = ''STF002'',
                slot_staff_name = ''Sarah Johnson''\<rparr> \<in> set (av_available_slots response)
            \<and> (\<forall>s \<in> set (av_available_slots response).
                  \<exists>t. strptime_HM (slot_time s) = Inr t \<and> 10 * 60 \<le> t \<and> t < 18 * 60))"
  by (rule stf002_tuesday_availability [OF january_2nd])
     (simp_all add: facial_appointment_def)

text \<open>
  On that Tuesday the slot list of the seeded roster is the sixteen slots of STF001 and
  then the slots of STF002 from 11:00 on: her 10:30 slot is not in it.
\<close>

theorem stf002_half_past_ten_is_taken:
  "compute_slots default_staff [(''APT0001'', facial_appointment)] ''2024-01-02'' ''Tuesday''
     = Inr facial_tuesday_slots
   \<and> \<lparr>slot_time = ''10:30'', slot_staff_id = ''STF002'', slot_staff_name = ''Sarah Johnson''\<rparr>
       \<notin> set facial_tuesday_slots"
proof -
  have "compute_slots default_staff [(''APT0001'', facial_appointment)] ''2024-01-02'' ''Tuesday''
     = Inr facial_tuesday_slots"
    unfolding facial_tuesday_slots_def
    by (rule seeded_tuesday_slots) (simp_all add: facial_appointment_def)
  then show ?thesis
    by (simp add: facial_tuesday_slots_def slots_of_def)
qed

lemma booked_once_files:
  "appointments_file booked_once = Some [(''APT0001'', first_appointment)]"
  "staff_file booked_once = Some default_staff"
  by code_simp+

lemma booked_once_tuesday:
  "check_availability ''2024-01-02'' None booked_once = Inr tuesday_response"
proof -
  have a: "staff_appointments [(''APT0001'', first_appointment)] ''STF001'' ''2024-01-02''
             = [first_appointment]"
    and b: "staff_appointments [(''APT0001'', first_appointment)] ''STF002'' ''2024-01-02'' = []"
    by (simp_all add: staff_appointments_def first_appointment_def)
  have c: "apt_time first_appointment = ''10:00''" "apt_duration_minutes first_appointment = 30"
    by (simp_all add: first_appointment_def)
  show ?thesis
    by (simp add: check_availability_def january_2nd january_2nd_Suc Let_def booked_once_files load_data_simps
          compute_slots_def tuesday_roster a b STF001_def STF002_def seeded_hours
          nine_to_five_busy_at_ten [OF c] ten_to_six_free tuesday_response_def slots_of_def)
qed


text \<open>The same slot against the appointment from 10:00 to 10:30.\<close>

theorem check_availability_avoids_appointments_witness:
  "\<exists>t apt_start.
      strptime_HM (slot_time half_past_ten) = Inr t
      \<and> strptime_HM (apt_time first_appointment) = Inr apt_start
      \<and> \<not> (apt_start \<le> t \<and> t < apt_start + apt_duration_minutes first_appointment)"
proof -
  have s: "half_past_ten \<in> set (av_available_slots tuesday_response)"
    by (simp add: tuesday_response_def slots_of_def half_past_ten_def)
  have a: "(''APT0001'', first_appointment) \<in> set (load_data (appointments_file booked_once))"
    by (simp add: booked_once_files load_data_simps)
  have f: "apt_staff_id first_appointment = slot_staff_id half_past_ten"
    "apt_date first_appointment = ''2024-01-02''" "apt_status first_appointment = ''scheduled''"
    by (simp_all add: first_appointment_def half_past_ten_def)
  show ?thesis
    by (rule check_availability_avoids_appointments [OF booked_once_tuesday s a f])
qed

lemma booked_once_unpadded_date:
  "check_availability ''2024-1-2'' None booked_once = Inr unpadded_response"
proof -
  have a: "staff_appointments [(''APT0001'', first_appointment)] ''STF001'' ''2024-1-2'' = []"
    and b: "staff_appointments [(''APT0001'', first_appointment)] ''STF002'' ''2024-1-2'' = []"
    by (simp_all add: staff_appointments_def first_appointment_def)
  show ?thesis
    by (simp add: check_availability_def strptime_Ymd_unpadded january_2nd_Suc Let_def
          booked_once_files load_data_simps compute_slots_def tuesday_roster a b STF001_def
          STF002_def seeded_hours nine_to_five_free ten_to_six_free unpadded_response_def
          slots_of_def)
qed

text \<open>
  After one Botox booking with STF001 at 10:00 on \<open>2024-01-02\<close>, the request for
  \<open>2024-1-2\<close> (which \<^verbatim>\<open>strptime\<close> reads as the same day) is answered with her 10:00
  slot: the appointment is stored under the string \<open>2024-01-02\<close>, the code compares
  the date strings, and so the slot starts inside the scheduled appointment
  \<open>[10:00, 10:30)\<close> of the same staff member on the same calendar day.
\<close>

theorem unpadded_date_hides_appointment:
  "check_availability ''2024-1-2'' None booked_once = Inr unpadded_response
   \<and> ten_sharp \<in> set (av_available_slots unpadded_response)
   \<and> load_data (appointments_file booked_once) = [(''APT0001'', first_appointment)]
   \<and> apt_staff_id first_appointment = slot_staff_id ten_sharp
   \<and> apt_status first_appointment = ''scheduled''
   \<and> strptime_Ymd (apt_date first_appointment) = strptime_Ymd ''2024-1-2''
   \<and> apt_date first_appointment \<noteq> ''2024-1-2''
   \<and> strptime_HM (slot_time ten_sharp) = Inr 600
   \<and> strptime_HM (apt_time first_appointment) = Inr 600
   \<and> apt_duration_minutes first_appointment = 30
   \<and> (600 :: int) \<le> 600 \<and> (600 :: int) < 600 + 30"
proof -
  have "strptime_Ymd (apt_date first_appointment) = strptime_Ymd ''2024-1-2''"
    by (simp add: first_appointment_def january_2nd strptime_Ymd_unpadded)
  then show ?thesis
    by (simp add: booked_once_unpadded_date unpadded_response_def slots_of_def ten_sharp_def
          booked_once_files load_data_simps first_appointment_def ten_o_clock)
qed

section \<open>Sequential IDs\<close>

lemma nat_of_digits_snoc: "nat_of_digits (s @ [c]) = 10 * nat_of_digits s + digit_val c"
  by (simp add: nat_of_digits_def)

lemma nat_of_digits_str_nat: "nat_of_digits (str_nat n) = n"
proof (induction n rule: str_nat.induct)
  case (1 n)
  show ?case
  proof (cases "n < 10")
    case True
    then show ?thesis
      by (simp add: str_nat_lt10 nat_of_digits_def digit_char_facts)
  next
    case False
    then have "str_nat n = str_nat (n div 10) @ [digit_char (n mod 10)]"
      by (subst str_nat.simps) simp
    with False "1.IH" show ?thesis
      by (simp add: nat_of_digits_snoc digit_char_facts)
  qed
qed

lemma nat_of_digits_zeros: "nat_of_digits (replicate k CHR ''0'' @ s) = nat_of_digits s"
proof -
  have "foldl (\<lambda>acc c. 10 * acc + digit_val c) 0 (replicate k CHR ''0'') = 0"
    by (induction k) (simp_all add: digit_val_def)
  then show ?thesis
    by (simp add: nat_of_digits_def)
qed

lemma nat_of_digits_format: "nat_of_digits (format_0d w (int n)) = n"
  by (simp add: format_0d_def zero_pad_def nat_of_digits_zeros nat_of_digits_str_nat)

lemma id_of_inj: "id_of prefix m = id_of prefix n \<Longrightarrow> m = n"
proof -
  assume "id_of prefix m = id_of prefix n"
  then have "format_0d 4 (int m) = format_0d 4 (int n)"
    by (simp add: id_of_def)
  then have "nat_of_digits (format_0d 4 (int m)) = nat_of_digits (format_0d 4 (int n))"
    by simp
  then show ?thesis
    by (simp add: nat_of_digits_format)
qed

lemma new_ids: "new_client_id clients = id_of ''CL'' (Suc (length clients))"
  "new_appointment_id appointments = id_of ''APT'' (Suc (length appointments))"
  by (simp_all add: new_client_id_def new_appointment_id_def id_of_def)

lemma sequential_ids_fresh:
  assumes "sequential_ids prefix d"
  shows "id_of prefix (Suc (length d)) \<notin> set (map fst d)"
proof
  assume "id_of prefix (Suc (length d)) \<in> set (map fst d)"
  with assms obtain i where "i \<in> set [1..<length d + 1]" "id_of prefix (Suc (length d)) = id_of prefix i"
    unfolding sequential_ids_def by (metis (no_types, lifting) imageE list.set_map)
  then show False
    using id_of_inj [of prefix "Suc (length d)" i] by simp
qed

lemma sequential_ids_new:
  assumes "sequential_ids prefix d"
  shows "dict_set d (id_of prefix (Suc (length d))) v = d @ [(id_of prefix (Suc (length d)), v)]"
    and "sequential_ids prefix (dict_set d (id_of prefix (Suc (length d))) v)"
proof -
  show a: "dict_set d (id_of prefix (Suc (length d))) v = d @ [(id_of prefix (Suc (length d)), v)]"
    using sequential_ids_fresh [OF assms] by (rule dict_set_fresh)
  show "sequential_ids prefix (dict_set d (id_of prefix (Suc (length d))) v)"
    using assms unfolding a sequential_ids_def by simp
qed

lemma dict_set_length: "k \<in> set (map fst d) \<Longrightarrow> length (dict_set d k v) = length d"
  using dict_set_keys [of k d v] by (metis length_map)

lemma sequential_ids_update:
  assumes "sequential_ids prefix d" and "dict_get d k \<noteq> None"
  shows "sequential_ids prefix (dict_set d k v)"
proof -
  from assms(2) have k: "k \<in> set (map fst d)"
    by (simp add: dict_get_None_iff del: set_map)
  show ?thesis
    using assms(1) dict_set_keys [OF k, of v] dict_set_length [OF k, of v]
    by (simp add: sequential_ids_def)
qed

lemma sequential_ids_empty: "sequential_ids prefix []"
  by (simp add: sequential_ids_def)

section \<open>What a booking does to the store\<close>

lemma book_appointment_success:
  assumes "book_appointment now_client now_apt booking st = (response, st')"
      and "resp_success response"
  obtains service_id service client_id clients' st1 staff_id member client where
    "find_service (req_service_name booking) (load_data (services_file st)) = Some (service_id, service)"
    "resolve_client now_client booking (load_data (clients_file st)) st = (client_id, clients', st1)"
    "resolve_staff booking service (load_data (staff_file st)) = Some staff_id"
    "staff_id \<noteq> []"
    "dict_get (load_data (staff_file st)) staff_id = Some member"
    "dict_get clients' client_id = Some client"
    "response = booked (new_appointment_id (load_data (appointments_file st))) service member booking"
    "st' = st1\<lparr>appointments_file := Some (dict_set (load_data (appointments_file st))
                    (new_appointment_id (load_data (appointments_file st)))
                    (voice_appointment (new_appointment_id (load_data (appointments_file st)))
                       client_id client service_id service staff_id member booking now_apt)),
                clients_file := Some (dict_set clients' client_id (count_visit client service))\<rparr>"
  using assms
  unfolding book_appointment_def book_appointment_body_def Let_def
  by (auto simp: failure_def split: option.splits prod.splits if_splits sum.splits)

lemma book_appointment_failure_store:
  assumes "book_appointment now_client now_apt booking st = (response, st')"
      and "\<not> resp_success response"
  shows "st' = st \<or> st' = snd (snd (resolve_client now_client booking (load_data (clients_file st)) st))"
proof (cases "find_service (req_service_name booking) (load_data (services_file st))")
  case None
  with assms(1) show ?thesis
    by (simp add: book_appointment_def book_appointment_body_def Let_def)
next
  case (Some found)
  obtain service_id service where f: "found = (service_id, service)"
    by (cases found)
  obtain client_id clients' st1 where
    rc: "resolve_client now_client booking (load_data (clients_file st)) st = (client_id, clients', st1)"
    by (cases "resolve_client now_client booking (load_data (clients_file st)) st")
  have "st' = st1"
    using assms book_body_no_raise [of now_client now_apt booking st]
    unfolding book_appointment_def book_appointment_body_def Let_def Some f rc
    by (auto simp: booked_def split: option.splits if_splits sum.splits prod.splits)
  with rc show ?thesis by simp
qed

lemma resolve_client_well_numbered:
  assumes "resolve_client now booking (load_data (clients_file st)) st = (client_id, clients', st1)"
      and "well_numbered st"
  shows "well_numbered st1 \<and> load_data (clients_file st1) = clients'
         \<and> sequential_ids ''CL'' clients'"
proof (cases "st1 = st \<and> clients' = load_data (clients_file st)")
  case True
  with assms(2) show ?thesis by (simp add: well_numbered_def)
next
  case False
  with resolve_client_cases [OF assms(1)]
  have a: "clients' = dict_set (load_data (clients_file st))
                        (new_client_id (load_data (clients_file st)))
                        (voice_client (new_client_id (load_data (clients_file st))) booking now)"
    and b: "st1 = st\<lparr>clients_file := Some clients'\<rparr>"
    by auto
  from assms(2) have "sequential_ids ''CL'' clients'"
    unfolding a new_ids well_numbered_def by (auto intro: sequential_ids_new(2))
  with assms(2) b show ?thesis
    by (simp add: well_numbered_def load_data_simps)
qed

lemma book_appointment_well_numbered:
  assumes "book_appointment now_client now_apt booking st = (response, st')"
      and "well_numbered st"
  shows "well_numbered st'"
proof (cases "resp_success response")
  case True
  from assms(1) True show ?thesis
  proof (rule book_appointment_success)
    fix service_id service client_id clients' st1 staff_id member client
    assume rc: "resolve_client now_client booking (load_data (clients_file st)) st
                  = (client_id, clients', st1)"
      and c: "dict_get clients' client_id = Some client"
      and st': "st' = st1\<lparr>appointments_file := Some (dict_set (load_data (appointments_file st))
                    (new_appointment_id (load_data (appointments_file st)))
                    (voice_appointment (new_appointment_id (load_data (appointments_file st)))
                       client_id client service_id service staff_id member booking now_apt)),
                clients_file := Some (dict_set clients' client_id (count_visit client service))\<rparr>"
    from resolve_client_well_numbered [OF rc assms(2)]
    have cl: "sequential_ids ''CL'' clients'" by simp
    have "dict_get clients' client_id \<noteq> None"
      using c by simp
    then have 1: "sequential_ids ''CL'' (dict_set clients' client_id (count_visit client service))"
      by (rule sequential_ids_update [OF cl])
    from assms(2) have "sequential_ids ''APT'' (load_data (appointments_file st))"
      by (simp add: well_numbered_def)
    then have 2: "sequential_ids ''APT'' (dict_set (load_data (appointments_file st))
                    (new_appointment_id (load_data (appointments_file st)))
                    (voice_appointment (new_appointment_id (load_data (appointments_file st)))
                       client_id client service_id service staff_id member booking now_apt))"
      unfolding new_ids by (rule sequential_ids_new(2))
    show "well_numbered st'"
      unfolding st' well_numbered_def using 1 2 by (simp add: load_data_simps)
  qed
next
  case False
  obtain client_id clients' st1 where
    rc: "resolve_client now_client booking (load_data (clients_file st)) st = (client_id, clients', st1)"
    by (cases "resolve_client now_client booking (load_data (clients_file st)) st")
  from book_appointment_failure_store [OF assms(1) False] rc
  have "st' = st \<or> st' = st1" by simp
  with assms(2) resolve_client_well_numbered [OF rc assms(2)]
  show ?thesis by auto
qed

lemma initialize_default_data_files:
  "appointments_file (initialize_default_data st) = appointments_file st"
  "clients_file (initialize_default_data st) = clients_file st"
  by (simp_all add: initialize_default_data_def Let_def)

lemma well_numbered_appointments:
  assumes "well_numbered st"
  shows "dict_get (load_data (appointments_file st)) k = Some apt
           \<Longrightarrow> well_numbered (st\<lparr>appointments_file := Some (dict_set (load_data (appointments_file st)) k v)\<rparr>)"
    and "well_numbered (st\<lparr>appointments_file := Some (dict_set (load_data (appointments_file st))
           (new_appointment_id (load_data (appointments_file st))) v)\<rparr>)"
  using assms
  by (simp_all add: well_numbered_def load_data_simps sequential_ids_update new_ids
        sequential_ids_new(2))

lemma api_cancel_appointment_well_numbered:
  assumes "api_cancel_appointment now appointment_id reason st = (res, st')" "well_numbered st"
  shows "well_numbered st'"
proof (cases "dict_get (load_data (appointments_file st)) appointment_id")
  case None
  with assms show ?thesis by (simp add: api_cancel_appointment_def)
next
  case (Some apt)
  with assms(1) well_numbered_appointments(1) [OF assms(2) Some] show ?thesis
    by (auto simp: api_cancel_appointment_def Let_def)
qed

lemma create_appointment_well_numbered:
  assumes "create_appointment fmt_price now client_id service_id staff_id day hour remark st = (msg, st')"
      and "well_numbered st"
  shows "well_numbered st'"
  using assms(1) well_numbered_appointments(2) [OF assms(2)] assms(2)
  by (auto simp: create_appointment_def Let_def split: option.splits)

lemma update_appointment_status_well_numbered:
  assumes "update_appointment_status now appointment_id status remark st = (msg, st')"
      and "well_numbered st"
  shows "well_numbered st'"
proof (cases "dict_get (load_data (appointments_file st)) appointment_id")
  case None
  with assms show ?thesis by (simp add: update_appointment_status_def)
next
  case (Some apt)
  with assms(1) well_numbered_appointments(1) [OF assms(2) Some] assms(2) show ?thesis
    by (auto simp: update_appointment_status_def Let_def split: if_splits)
qed

lemma add_client_well_numbered:
  assumes "add_client now name email phone date_of_birth address emergency_contact medical_notes st
             = (msg, st')"
      and "well_numbered st"
  shows "well_numbered st'"
  using assms
  by (auto simp: add_client_def Let_def well_numbered_def load_data_simps new_ids
        sequential_ids_new(2))

theorem reachable_well_numbered: "reachable st \<Longrightarrow> well_numbered st"
proof (induction rule: reachable.induct)
  case start
  show ?case
    by (simp add: well_numbered_def initial_store_def initialize_default_data_files
          empty_store_def load_data_simps sequential_ids_empty)
next
  case (restart st)
  then show ?case
    by (simp add: well_numbered_def initialize_default_data_files)
next
  case (book st now_client now_apt booking response st')
  then show ?case
    by (auto intro: book_appointment_well_numbered)
next
  case (api_cancel st now appointment_id reason res st')
  then show ?case
    by (auto intro: api_cancel_appointment_well_numbered)
next
  case (create st fmt_price now client_id service_id staff_id day hour remark msg st')
  then show ?case
    by (auto intro: create_appointment_well_numbered)
next
  case (update st now appointment_id status remark msg st')
  then show ?case
    by (auto intro: update_appointment_status_well_numbered)
next
  case (cancel st now appointment_id reason msg st')
  then show ?case
    unfolding cancel_appointment_def by (auto intro: update_appointment_status_well_numbered)
next
  case (add st now name email phone date_of_birth address emergency_contact medical_notes msg st')
  then show ?case
    by (auto intro: add_client_well_numbered)
qed

section \<open>Booking: the staff member\<close>

lemma find_staff_first:
  assumes "find_staff category staff = Some staff_id"
  shows "\<exists>i member. i < length staff \<and> staff ! i = (staff_id, member)
           \<and> category \<in> set (stf_specialties member)
           \<and> (\<forall>j<i. category \<notin> set (stf_specialties (snd (staff ! j))))"
proof -
  from assms obtain p where p: "find (\<lambda>(sid, s). category \<in> set (stf_specialties s)) staff = Some p"
    and "fst p = staff_id"
    by (auto simp: find_staff_def)
  then obtain member where m: "p = (staff_id, member)"
    by (cases p) simp
  from p obtain i where "i < length staff" "staff ! i = p"
    "category \<in> set (stf_specialties (snd p))"
    "\<forall>j<i. category \<notin> set (stf_specialties (snd (staff ! j)))"
    unfolding find_Some_iff by (auto simp: case_prod_beta)
  with m show ?thesis by auto
qed

lemma resolve_staff_cases:
  assumes "resolve_staff booking service staff = Some staff_id" and "staff_id \<noteq> []"
  shows "(falsy (req_staff_id booking) \<longrightarrow> find_staff (svc_category service) staff = Some staff_id)
         \<and> (\<not> falsy (req_staff_id booking) \<longrightarrow> req_staff_id booking = Some staff_id)"
  using assms by (auto simp: resolve_staff_def falsy_def split: option.splits if_splits)

lemma book_appointment_no_staff:
  assumes "find_service (req_service_name booking) (load_data (services_file st))
             = Some (service_id, service)"
      and "(falsy (req_staff_id booking)
              \<and> (\<forall>(sid, s) \<in> set (load_data (staff_file st)).
                     svc_category service \<notin> set (stf_specialties s)))
           \<or> (\<exists>sid. req_staff_id booking = Some sid \<and> sid \<noteq> []
                  \<and> \<not> dict_contains (load_data (staff_file st)) sid)"
  shows "fst (book_appointment now_client now_apt booking st)
           = failure ''No staff available for this service''"
proof -
  obtain client_id clients' st1 where
    rc: "resolve_client now_client booking (load_data (clients_file st)) st = (client_id, clients', st1)"
    by (cases "resolve_client now_client booking (load_data (clients_file st)) st")
  have rs: "case resolve_staff booking service (load_data (staff_file st)) of
              None \<Rightarrow> True
            | Some sid \<Rightarrow> sid = [] \<or> \<not> dict_contains (load_data (staff_file st)) sid"
    using assms(2) find_staff_None [of "load_data (staff_file st)" "svc_category service"]
    by (auto simp: resolve_staff_def falsy_def split: option.splits)
  then show ?thesis
    by (auto simp: book_appointment_def book_appointment_body_def Let_def assms(1) rc
             split: option.splits)
qed

text \<open>
  Claim C9, as the code has it. For a request whose service resolves:
  a booking that succeeds stores an appointment with that service and with a staff
  member of the staff file. When the request names no staff member (none, or an empty
  ID), that member is the first entry of the staff file, in file order, whose specialties
  contain the category of the service. When the request names one, the appointment
  gets exactly that member; the code does not look at the specialties then. The booking
  fails with "No staff available for this service" when no staff is named and no
  specialty matches, and when the named staff ID is not in the staff file.
\<close>

theorem book_appointment_staff:
  assumes "book_appointment now_client now_apt booking st = (response, st')"
      and "find_service (req_service_name booking) (load_data (services_file st))
             = Some (service_id, service)"
  shows "(resp_success response \<longrightarrow>
            (\<exists>new_id apt member.
               resp_appointment_id response = Some new_id
               \<and> dict_get (load_data (appointments_file st')) new_id = Some apt
               \<and> apt_service_id apt = service_id
               \<and> dict_get (load_data (staff_file st)) (apt_staff_id apt) = Some member
               \<and> (falsy (req_staff_id booking) \<longrightarrow>
                    (\<exists>i m. i < length (load_data (staff_file st))
                       \<and> load_data (staff_file st) ! i = (apt_staff_id apt, m)
                       \<and> svc_category service \<in> set (stf_specialties m)
                       \<and> (\<forall>j<i. svc_category service
                                   \<notin> set (stf_specialties (snd (load_data (staff_file st) ! j))))))
               \<and> (\<not> falsy (req_staff_id booking) \<longrightarrow>
                    req_staff_id booking = Some (apt_staff_id apt))))
         \<and> (falsy (req_staff_id booking)
              \<and> (\<forall>(sid, s) \<in> set (load_data (staff_file st)).
                     svc_category service \<notin> set (stf_specialties s))
            \<longrightarrow> response = \<lparr>resp_success = False, resp_appointment_id = None,
                   resp_message = ''No staff available for this service'',
                   resp_confirmation_details = None\<rparr>)
         \<and> ((\<exists>sid. req_staff_id booking = Some sid \<and> sid \<noteq> []
                  \<and> \<not> dict_contains (load_data (staff_file st)) sid)
            \<longrightarrow> response = \<lparr>resp_success = False, resp_appointment_id = None,
                   resp_message = ''No staff available for this service'',
                   resp_confirmation_details = None\<rparr>)"
proof (intro conjI impI)
  assume ok: "resp_success response"
  from assms(1) ok show "\<exists>new_id apt member.
               resp_appointment_id response = Some new_id
               \<and> dict_get (load_data (appointments_file st')) new_id = Some apt
               \<and> apt_service_id apt = service_id
               \<and> dict_get (load_data (staff_file st)) (apt_staff_id apt) = Some member
               \<and> (falsy (req_staff_id booking) \<longrightarrow>
                    (\<exists>i m. i < length (load_data (staff_file st))
                       \<and> load_data (staff_file st) ! i = (apt_staff_id apt, m)
                       \<and> svc_category service \<in> set (stf_specialties m)
                       \<and> (\<forall>j<i. svc_category service
                                   \<notin> set (stf_specialties (snd (load_data (staff_file st) ! j))))))
               \<and> (\<not> falsy (req_staff_id booking) \<longrightarrow>
                    req_staff_id booking = Some (apt_staff_id apt))"
  proof (rule book_appointment_success)
    fix service_id' service' client_id clients' st1 staff_id member client
    assume fs: "find_service (req_service_name booking) (load_data (services_file st))
                  = Some (service_id', service')"
      and rs: "resolve_staff booking service' (load_data (staff_file st)) = Some staff_id"
      and ne: "staff_id \<noteq> []"
      and mem: "dict_get (load_data (staff_file st)) staff_id = Some member"
      and resp: "response = booked (new_appointment_id (load_data (appointments_file st)))
                              service' member booking"
      and st': "st' = st1\<lparr>appointments_file := Some (dict_set (load_data (appointments_file st))
                    (new_appointment_id (load_data (appointments_file st)))
                    (voice_appointment (new_appointment_id (load_data (appointments_file st)))
                       client_id client service_id' service' staff_id member booking now_apt)),
                clients_file := Some (dict_set clients' client_id (count_visit client service'))\<rparr>"
    from fs assms(2) have eq: "service_id' = service_id" "service' = service"
      by simp_all
    let ?id = "new_appointment_id (load_data (appointments_file st))"
    let ?apt = "voice_appointment ?id client_id client service_id service staff_id member
                  booking now_apt"
    have 1: "resp_appointment_id response = Some ?id"
      by (simp add: resp booked_def)
    have 2: "dict_get (load_data (appointments_file st')) ?id = Some ?apt"
      by (simp add: st' eq load_data_simps dict_get_dict_set_same)
    have 3: "apt_service_id ?apt = service_id" "apt_staff_id ?apt = staff_id"
      by (simp_all add: voice_appointment_def)
    from resolve_staff_cases [OF rs ne] eq
    have 4: "falsy (req_staff_id booking) \<longrightarrow>
               find_staff (svc_category service) (load_data (staff_file st)) = Some staff_id"
      and 5: "\<not> falsy (req_staff_id booking) \<longrightarrow> req_staff_id booking = Some staff_id"
      by simp_all
    from 4 find_staff_first
    have 6: "falsy (req_staff_id booking) \<longrightarrow>
                    (\<exists>i m. i < length (load_data (staff_file st))
                       \<and> load_data (staff_file st) ! i = (staff_id, m)
                       \<and> svc_category service \<in> set (stf_specialties m)
                       \<and> (\<forall>j<i. svc_category service
                                   \<notin> set (stf_specialties (snd (load_data (staff_file st) ! j)))))"
      by blast
    show ?thesis
      apply (rule exI [of _ ?id], rule exI [of _ ?apt], rule exI [of _ member])
      using 1 2 3 mem 5 6 by simp
  qed
next
  assume "falsy (req_staff_id booking)
              \<and> (\<forall>(sid, s) \<in> set (load_data (staff_file st)).
                     svc_category service \<notin> set (stf_specialties s))"
  then have "fst (book_appointment now_client now_apt booking st)
               = failure ''No staff available for this service''"
    by (intro book_appointment_no_staff [OF assms(2)] disjI1)
  with assms(1)
  show "response = \<lparr>resp_success = False, resp_appointment_id = None,
                   resp_message = ''No staff available for this service'',
                   resp_confirmation_details = None\<rparr>"
    by (simp add: failure_def)
next
  assume "\<exists>sid. req_staff_id booking = Some sid \<and> sid \<noteq> []
                  \<and> \<not> dict_contains (load_data (staff_file st)) sid"
  then have "fst (book_appointment now_client now_apt booking st)
               = failure ''No staff available for this service''"
    by (intro book_appointment_no_staff [OF assms(2)] disjI2)
  with assms(1)
  show "response = \<lparr>resp_success = False, resp_appointment_id = None,
                   resp_message = ''No staff available for this service'',
                   resp_confirmation_details = None\<rparr>"
    by (simp add: failure_def)
qed

text \<open>
  Four bookings on the seeded data: Botox without a staff ID (STF001 is the first with
  Injectables), a Hydrafacial with STF001 named, Botox when the only staff member has no
  matching specialty, and a booking naming \<open>STF999\<close>.
\<close>

theorem book_appointment_staff_witness:
  "(\<exists>new_id apt member.
       resp_appointment_id (fst booking_by_specialty) = Some new_id
       \<and> dict_get (load_data (appointments_file (snd booking_by_specialty))) new_id = Some apt
       \<and> apt_service_id apt = ''SVC001''
       \<and> dict_get (load_data (staff_file (initial_store :: int store))) (apt_staff_id apt) = Some member
       \<and> (\<exists>i m. i < length (load_data (staff_file (initial_store :: int store)))
              \<and> load_data (staff_file (initial_store :: int store)) ! i = (apt_staff_id apt, m)
              \<and> svc_category first_service \<in> set (stf_specialties m)))
   \<and> (\<exists>new_id apt member.
       resp_appointment_id (fst booking_by_name) = Some new_id
       \<and> dict_get (load_data (appointments_file (snd booking_by_name))) new_id = Some apt
       \<and> apt_service_id apt = ''SVC003''
       \<and> dict_get (load_data (staff_file (initial_store :: int store))) (apt_staff_id apt) = Some member
       \<and> req_staff_id mismatched_booking = Some (apt_staff_id apt))
   \<and> fst booking_without_match
       = \<lparr>resp_success = False, resp_appointment_id = None,
          resp_message = ''No staff available for this service'',
          resp_confirmation_details = None\<rparr>
   \<and> fst booking_stranger
       = \<lparr>resp_success = False, resp_appointment_id = None,
          resp_message = ''No staff available for this service'',
          resp_confirmation_details = None\<rparr>"
proof (intro conjI)
  have p: "book_appointment ''t1'' ''t2'' example_booking initial_store
             = (fst booking_by_specialty, snd booking_by_specialty)"
    by (simp add: booking_by_specialty_def)
  have f: "find_service (req_service_name example_booking)
             (load_data (services_file (initial_store :: int store))) = Some (''SVC001'', first_service)"
    by code_simp
  have s: "resp_success (fst booking_by_specialty)"
    by code_simp
  have y: "falsy (req_staff_id example_booking)"
    by code_simp
  from book_appointment_staff [OF p f, THEN conjunct1, THEN mp, OF s] y
  show "\<exists>new_id apt member.
       resp_appointment_id (fst booking_by_specialty) = Some new_id
       \<and> dict_get (load_data (appointments_file (snd booking_by_specialty))) new_id = Some apt
       \<and> apt_service_id apt = ''SVC001''
       \<and> dict_get (load_data (staff_file (initial_store :: int store))) (apt_staff_id apt) = Some member
       \<and> (\<exists>i m. i < length (load_data (staff_file (initial_store :: int store)))
              \<and> load_data (staff_file (initial_store :: int store)) ! i = (apt_staff_id apt, m)
              \<and> svc_category first_service \<in> set (stf_specialties m))"
    by (elim exE conjE) blast
next
  have p: "book_appointment ''t1'' ''t2'' mismatched_booking initial_store
             = (fst booking_by_name, snd booking_by_name)"
    by (simp add: booking_by_name_def)
  have f: "find_service (req_service_name mismatched_booking)
             (load_data (services_file (initial_store :: int store))) = Some (''SVC003'', third_service)"
    by code_simp
  have s: "resp_success (fst booking_by_name)"
    by code_simp
  have y: "\<not> falsy (req_staff_id mismatched_booking)"
    by code_simp
  from book_appointment_staff [OF p f, THEN conjunct1, THEN mp, OF s] y
  show "\<exists>new_id apt member.
       resp_appointment_id (fst booking_by_name) = Some new_id
       \<and> dict_get (load_data (appointments_file (snd booking_by_name))) new_id = Some apt
       \<and> apt_service_id apt = ''SVC003''
       \<and> dict_get (load_data (staff_file (initial_store :: int store))) (apt_staff_id apt) = Some member
       \<and> req_staff_id mismatched_booking = Some (apt_staff_id apt)"
    by (elim exE conjE) blast
next
  have p: "book_appointment ''t1'' ''t2'' example_booking aesthetician_only
             = (fst booking_without_match, snd booking_without_match)"
    by (simp add: booking_without_match_def)
  have f: "find_service (req_service_name example_booking)
             (load_data (services_file aesthetician_only)) = Some (''SVC001'', first_service)"
    by code_simp
  have n: "falsy (req_staff_id example_booking)
              \<and> (\<forall>(sid, s) \<in> set (load_data (staff_file aesthetician_only)).
                     svc_category first_service \<notin> set (stf_specialties s))"
    by code_simp
  from book_appointment_staff [OF p f, THEN conjunct2, THEN conjunct1, THEN mp, OF n]
  show "fst booking_without_match
       = \<lparr>resp_success = False, resp_appointment_id = None,
          resp_message = ''No staff available for this service'',
          resp_confirmation_details = None\<rparr>" .
next
  have p: "book_appointment ''t1'' ''t2'' stranger_booking initial_store
             = (fst booking_stranger, snd booking_stranger)"
    by (simp add: booking_stranger_def)
  have f: "find_service (req_service_name stranger_booking)
             (load_data (services_file (initial_store :: int store))) = Some (''SVC001'', first_service)"
    by code_simp
  have n: "\<exists>sid. req_staff_id stranger_booking = Some sid \<and> sid \<noteq> []
                  \<and> \<not> dict_contains (load_data (staff_file (initial_store :: int store))) sid"
    by (rule exI [of _ "''STF999''"]) code_simp
  from book_appointment_staff [OF p f, THEN conjunct2, THEN conjunct2, THEN mp, OF n]
  show "fst booking_stranger
       = \<lparr>resp_success = False, resp_appointment_id = None,
          resp_message = ''No staff available for this service'',
          resp_confirmation_details = None\<rparr>" .
qed

text \<open>
  A Hydrafacial (category Facials) booked with STF001 named: the booking succeeds, and
  the specialties of STF001 are Injectables and Laser Treatments.
\<close>

theorem explicit_staff_without_specialty:
  "resp_success (fst booking_by_name)
   \<and> map (\<lambda>(k, a). (apt_service_name a, apt_staff_id a))
         (load_data (appointments_file (snd booking_by_name))) = [(''Hydrafacial'', ''STF001'')]
   \<and> map_option svc_category (dict_get (load_data (services_file (initial_store :: int store))) ''SVC003'')
       = Some ''Facials''
   \<and> map_option stf_specialties (dict_get (load_data (staff_file (initial_store :: int store))) ''STF001'')
       = Some [''Injectables'', ''Laser Treatments'']"
  by code_simp

section \<open>Booking: the client\<close>

lemma sequential_ids_distinct:
  assumes "sequential_ids prefix d"
  shows "distinct (map fst d)"
proof -
  have "inj_on (id_of prefix) (set [1..<length d + 1])"
    by (rule inj_onI) (rule id_of_inj)
  then have "distinct (map (id_of prefix) [1..<length d + 1])"
    by (simp add: distinct_map)
  with assms show ?thesis
    by (simp add: sequential_ids_def)
qed

lemma sequential_ids_nonempty:
  assumes "sequential_ids (c # prefix) d"
  shows "[] \<notin> set (map fst d)"
proof
  assume "[] \<in> set (map fst d)"
  with assms have "[] \<in> set (map (id_of (c # prefix)) [1..<length d + 1])"
    by (simp add: sequential_ids_def)
  then show False
    by (auto simp: id_of_def)
qed

lemma dict_set_last:
  "k \<notin> set (map fst d) \<Longrightarrow> dict_set (d @ [(k, v)]) k v' = d @ [(k, v')]"
  by (induction d) auto

lemma find_client_entry:
  assumes "find_client phone clients = Some cid" and "distinct (map fst clients)"
  shows "\<exists>client. dict_get clients cid = Some client \<and> cl_phone client = phone"
proof -
  from assms(1) obtain p where p: "find (\<lambda>(cid, client). cl_phone client = phone) clients = Some p"
    and "fst p = cid"
    by (auto simp: find_client_def)
  then obtain client where m: "p = (cid, client)"
    by (cases p) simp
  from p have "p \<in> set clients" "cl_phone (snd p) = phone"
    unfolding find_Some_iff by (auto simp: case_prod_beta)
  with m assms(2) show ?thesis
    by (auto simp: dict_get_def)
qed

lemma find_client_Some:
  assumes "(cid, client) \<in> set clients" and "cl_phone client = phone"
  shows "\<exists>found. find_client phone clients = Some found"
proof (cases "find_client phone clients")
  case None
  then have "\<not> (\<exists>x. x \<in> set clients \<and> (case x of (cid, client) \<Rightarrow> cl_phone client = phone))"
    by (simp add: find_client_def find_None_iff)
  with assms show ?thesis by auto
next
  case (Some found)
  then show ?thesis by simp
qed

lemma book_appointment_new_client:
  assumes "sequential_ids ''CL'' clients"
      and "resolve_client now booking clients st = (client_id, clients', st1)"
      and "find_client (req_client_phone booking) clients = None"
      and "dict_get clients' client_id = Some client"
  shows "client_id = new_client_id clients"
    and "client = voice_client (new_client_id clients) booking now"
    and "clients' = clients @ [(new_client_id clients, voice_client (new_client_id clients) booking now)]"
    and "st1 = st\<lparr>clients_file := Some clients'\<rparr>"
    and "dict_set clients' client_id v = clients @ [(new_client_id clients, v)]"
proof -
  from resolve_client_cases [OF assms(2)] assms(3)
  show id: "client_id = new_client_id clients"
    and st1: "st1 = st\<lparr>clients_file := Some clients'\<rparr>"
    by auto
  from resolve_client_cases [OF assms(2)] assms(3)
  have cl: "clients' = dict_set clients (new_client_id clients)
                         (voice_client (new_client_id clients) booking now)"
    by auto
  from assms(4) show "client = voice_client (new_client_id clients) booking now"
    unfolding cl id by (simp add: dict_get_dict_set_same)
  show app: "clients' = clients @ [(new_client_id clients, voice_client (new_client_id clients) booking now)]"
    unfolding cl new_ids by (rule sequential_ids_new(1) [OF assms(1)])
  have "new_client_id clients \<notin> set (map fst clients)"
    unfolding new_ids by (rule sequential_ids_fresh [OF assms(1)])
  then show "dict_set clients' client_id v = clients @ [(new_client_id clients, v)]"
    unfolding app id by (rule dict_set_last)
qed

lemma book_appointment_known_client:
  assumes "sequential_ids ''CL'' clients"
      and "resolve_client now booking clients st = (client_id, clients', st1)"
      and "find_client (req_client_phone booking) clients = Some found"
  shows "client_id = found" and "clients' = clients" and "st1 = st"
proof -
  from find_client_present [OF assms(3)] sequential_ids_nonempty [OF assms(1)]
  have "found \<noteq> []" by metis
  with resolve_client_cases [OF assms(2)] assms(3)
  show "client_id = found" and "clients' = clients" and "st1 = st"
    by auto
qed

text \<open>
  Claim C8. A booking that succeeds in a reachable state:
  if no client has the phone number of the request, \<^verbatim>\<open>book_appointment\<close> first creates
  one client record with zero counters under the next sequential ID (lines 245-263),
  and the clients file ends with exactly that one new record, counted once by the
  booking itself (lines 305-306); if some client has the phone number, the first such
  client in file order is reused: no record is added, and that client has one more visit
  and the price of the resolved service added to the spending.
\<close>

theorem book_appointment_client:
  fixes st :: "('a :: {zero,numeral}) store"
  assumes "reachable st"
      and "book_appointment now_client now_apt booking st = (response, st')"
      and "resp_success response"
      and "find_service (req_service_name booking) (load_data (services_file st))
             = Some (service_id, service)"
  shows "((\<forall>(cid, client) \<in> set (load_data (clients_file st)).
              cl_phone client \<noteq> req_client_phone booking) \<longrightarrow>
            new_client_id (load_data (clients_file st))
              = ''CL'' @ format_0d 4 (int (length (load_data (clients_file st)) + 1))
            \<and> fst (snd (resolve_client now_client booking (load_data (clients_file st)) st))
                = load_data (clients_file st)
                  @ [(new_client_id (load_data (clients_file st)),
                      voice_client (new_client_id (load_data (clients_file st))) booking now_client)]
            \<and> cl_total_visits (voice_client (new_client_id (load_data (clients_file st)))
                                 booking now_client) = 0
            \<and> cl_total_spent (voice_client (new_client_id (load_data (clients_file st)))
                                booking now_client :: 'a client) = 0
            \<and> load_data (clients_file st')
                = load_data (clients_file st)
                  @ [(new_client_id (load_data (clients_file st)),
                      (voice_client (new_client_id (load_data (clients_file st))) booking now_client)
                        \<lparr>cl_total_visits := 0 + 1, cl_total_spent := 0 + svc_price service\<rparr>)])
         \<and> ((\<exists>(cid, client) \<in> set (load_data (clients_file st)).
               cl_phone client = req_client_phone booking) \<longrightarrow>
            (\<exists>cid client.
               find_client (req_client_phone booking) (load_data (clients_file st)) = Some cid
               \<and> dict_get (load_data (clients_file st)) cid = Some client
               \<and> cl_phone client = req_client_phone booking
               \<and> load_data (clients_file st')
                   = dict_set (load_data (clients_file st)) cid
                       (client\<lparr>cl_total_visits := cl_total_visits client + 1,
                               cl_total_spent := cl_total_spent client + svc_price service\<rparr>)
               \<and> map fst (load_data (clients_file st')) = map fst (load_data (clients_file st))))"
proof -
  let ?clients = "load_data (clients_file st)"
  from reachable_well_numbered [OF assms(1)]
  have seq: "sequential_ids ''CL'' ?clients"
    by (simp add: well_numbered_def)
  from assms(2,3) show ?thesis
  proof (rule book_appointment_success)
    fix service_id' service' client_id clients' st1 staff_id member client
    assume fs: "find_service (req_service_name booking) (load_data (services_file st))
                  = Some (service_id', service')"
      and rc: "resolve_client now_client booking ?clients st = (client_id, clients', st1)"
      and c: "dict_get clients' client_id = Some client"
      and st': "st' = st1\<lparr>appointments_file := Some (dict_set (load_data (appointments_file st))
                    (new_appointment_id (load_data (appointments_file st)))
                    (voice_appointment (new_appointment_id (load_data (appointments_file st)))
                       client_id client service_id' service' staff_id member booking now_apt)),
                clients_file := Some (dict_set clients' client_id (count_visit client service'))\<rparr>"
    from fs assms(4) have eq: "service' = service"
      by simp
    have cf: "load_data (clients_file st') = dict_set clients' client_id (count_visit client service)"
      by (simp add: st' eq load_data_simps)
    show ?thesis
    proof (intro conjI impI)
      assume "\<forall>(cid, client) \<in> set ?clients. cl_phone client \<noteq> req_client_phone booking"
      then have none: "find_client (req_client_phone booking) ?clients = None"
        by (rule find_client_None)
      note new = book_appointment_new_client [OF seq rc none c]
      show "new_client_id ?clients = ''CL'' @ format_0d 4 (int (length ?clients + 1))"
        by (simp add: new_client_id_def)
      show "fst (snd (resolve_client now_client booking ?clients st))
                = ?clients @ [(new_client_id ?clients,
                      voice_client (new_client_id ?clients) booking now_client)]"
        using new(3) by (simp add: rc)
      show "cl_total_visits (voice_client (new_client_id ?clients) booking now_client) = 0"
        by (simp add: voice_client_def)
      show "cl_total_spent (voice_client (new_client_id ?clients) booking now_client :: 'a client) = 0"
        by (simp add: voice_client_def)
      show "load_data (clients_file st')
                = ?clients @ [(new_client_id ?clients,
                      (voice_client (new_client_id ?clients) booking now_client)
                        \<lparr>cl_total_visits := 0 + 1, cl_total_spent := 0 + svc_price service\<rparr>)]"
        unfolding cf new(5) new(2) by (simp add: count_visit_def voice_client_def)
    next
      assume "\<exists>(cid, client) \<in> set ?clients. cl_phone client = req_client_phone booking"
      then obtain found where found: "find_client (req_client_phone booking) ?clients = Some found"
        using find_client_Some [of _ _ ?clients "req_client_phone booking"] by auto
      note old = book_appointment_known_client [OF seq rc found]
      from find_client_entry [OF found sequential_ids_distinct [OF seq]]
      obtain client0 where c0: "dict_get ?clients found = Some client0"
        "cl_phone client0 = req_client_phone booking"
        by auto
      with c old have same: "client = client0"
        by simp
      have keys: "map fst (dict_set ?clients found (count_visit client0 service)) = map fst ?clients"
        by (rule dict_set_keys [OF find_client_present [OF found]])
      show "\<exists>cid client.
               find_client (req_client_phone booking) ?clients = Some cid
               \<and> dict_get ?clients cid = Some client
               \<and> cl_phone client = req_client_phone booking
               \<and> load_data (clients_file st')
                   = dict_set ?clients cid
                       (client\<lparr>cl_total_visits := cl_total_visits client + 1,
                               cl_total_spent := cl_total_spent client + svc_price service\<rparr>)
               \<and> map fst (load_data (clients_file st')) = map fst ?clients"
        apply (rule exI [of _ found], rule exI [of _ client0])
        using found c0 keys unfolding cf old same by (simp add: count_visit_def)
    qed
  qed
qed

lemma reachable_booked_once: "reachable booked_once"
proof -
  have "book_appointment ''2024-01-01T09:00:00'' ''2024-01-01T09:00:01'' example_booking
          (initial_store :: int store)
          = (fst (book_appointment ''2024-01-01T09:00:00'' ''2024-01-01T09:00:01'' example_booking
                    initial_store), booked_once)"
    by (simp add: booked_once_def)
  from reachable.book [OF reachable.start this] show ?thesis .
qed

text \<open>
  The first booking of a caller on the seeded data, and the same caller booking again.
\<close>

theorem book_appointment_client_witness:
  "(new_client_id (load_data (clients_file (initial_store :: int store)))
      = ''CL'' @ format_0d 4 (int (length (load_data (clients_file (initial_store :: int store))) + 1))
    \<and> fst (snd (resolve_client ''t1'' example_booking
                   (load_data (clients_file (initial_store :: int store))) initial_store))
        = load_data (clients_file (initial_store :: int store))
          @ [(new_client_id (load_data (clients_file (initial_store :: int store))),
              voice_client (new_client_id (load_data (clients_file (initial_store :: int store))))
                example_booking ''t1'')]
    \<and> cl_total_visits (voice_client (new_client_id (load_data (clients_file (initial_store :: int store))))
                         example_booking ''t1'' :: int client) = 0
    \<and> cl_total_spent (voice_client (new_client_id (load_data (clients_file (initial_store :: int store))))
                        example_booking ''t1'' :: int client) = 0
    \<and> load_data (clients_file (snd booking_by_specialty))
        = load_data (clients_file (initial_store :: int store))
          @ [(new_client_id (load_data (clients_file (initial_store :: int store))),
              (voice_client (new_client_id (load_data (clients_file (initial_store :: int store))))
                 example_booking ''t1'')
                \<lparr>cl_total_visits := 0 + 1, cl_total_spent := 0 + svc_price first_service\<rparr>)])
   \<and> (\<exists>cid client.
         find_client (req_client_phone example_booking) (load_data (clients_file booked_once)) = Some cid
         \<and> dict_get (load_data (clients_file booked_once)) cid = Some client
         \<and> cl_phone client = req_client_phone example_booking
         \<and> load_data (clients_file (snd rebooking))
             = dict_set (load_data (clients_file booked_once)) cid
                 (client\<lparr>cl_total_visits := cl_total_visits client + 1,
                         cl_total_spent := cl_total_spent client + svc_price first_service\<rparr>)
         \<and> map fst (load_data (clients_file (snd rebooking)))
             = map fst (load_data (clients_file booked_once)))"
proof (rule conjI)
  have p: "book_appointment ''t1'' ''t2'' example_booking initial_store
             = (fst booking_by_specialty, snd booking_by_specialty)"
    by (simp add: booking_by_specialty_def)
  have f: "find_service (req_service_name example_booking)
             (load_data (services_file (initial_store :: int store))) = Some (''SVC001'', first_service)"
    by code_simp
  have s: "resp_success (fst booking_by_specialty)"
    by code_simp
  have n: "\<forall>(cid, client) \<in> set (load_data (clients_file (initial_store :: int store))).
              cl_phone client \<noteq> req_client_phone example_booking"
    by code_simp
  from book_appointment_client [OF reachable.start p s f, THEN conjunct1, THEN mp, OF n]
  show "new_client_id (load_data (clients_file (initial_store :: int store)))
      = ''CL'' @ format_0d 4 (int (length (load_data (clients_file (initial_store :: int store))) + 1))
    \<and> fst (snd (resolve_client ''t1'' example_booking
                   (load_data (clients_file (initial_store :: int store))) initial_store))
        = load_data (clients_file (initial_store :: int store))
          @ [(new_client_id (load_data (clients_file (initial_store :: int store))),
              voice_client (new_client_id (load_data (clients_file (initial_store :: int store))))
                example_booking ''t1'')]
    \<and> cl_total_visits (voice_client (new_client_id (load_data (clients_file (initial_store :: int store))))
                         example_booking ''t1'' :: int client) = 0
    \<and> cl_total_spent (voice_client (new_client_id (load_data (clients_file (initial_store :: int store))))
                        example_booking ''t1'' :: int client) = 0
    \<and> load_data (clients_file (snd booking_by_specialty))
        = load_data (clients_file (initial_store :: int store))
          @ [(new_client_id (load_data (clients_file (initial_store :: int store))),
              (voice_client (new_client_id (load_data (clients_file (initial_store :: int store))))
                 example_booking ''t1'')
                \<lparr>cl_total_visits := 0 + 1, cl_total_spent := 0 + svc_price first_service\<rparr>)]" .
next
  have p: "book_appointment ''t3'' ''t4'' example_booking booked_once = (fst rebooking, snd rebooking)"
    by (simp add: rebooking_def)
  have f: "find_service (req_service_name example_booking)
             (load_data (services_file booked_once)) = Some (''SVC001'', first_service)"
    by code_simp
  have s: "resp_success (fst rebooking)"
    by code_simp
  have n: "\<exists>(cid, client) \<in> set (load_data (clients_file booked_once)).
              cl_phone client = req_client_phone example_booking"
    by code_simp
  from book_appointment_client [OF reachable_booked_once p s f, THEN conjunct2, THEN mp, OF n]
  show "\<exists>cid client.
         find_client (req_client_phone example_booking) (load_data (clients_file booked_once)) = Some cid
         \<and> dict_get (load_data (clients_file booked_once)) cid = Some client
         \<and> cl_phone client = req_client_phone example_booking
         \<and> load_data (clients_file (snd rebooking))
             = dict_set (load_data (clients_file booked_once)) cid
                 (client\<lparr>cl_total_visits := cl_total_visits client + 1,
                         cl_total_spent := cl_total_spent client + svc_price first_service\<rparr>)
         \<and> map fst (load_data (clients_file (snd rebooking)))
             = map fst (load_data (clients_file booked_once))" .
qed

lemma rebooking_clients:
  "map (\<lambda>(cid, c). (cid, cl_total_visits c, cl_total_spent c)) (load_data (clients_file booked_once))
     = [(''CL0001'', 1, 400)]"
  "map (\<lambda>(cid, c). (cid, cl_total_visits c, cl_total_spent c)) (load_data (clients_file (snd rebooking)))
     = [(''CL0001'', 2, 800)]"
  by code_simp+

section \<open>Double booking\<close>

lemma no_double_booking_snoc:
  "no_double_booking (appointments @ [a])
     \<longleftrightarrow> no_double_booking appointments \<and> list_all (\<lambda>b. \<not> conflict b a) appointments"
  by (induction appointments) auto

lemma create_appointment_created:
  assumes "dict_get (load_data (clients_file st)) client_id = Some client"
      and "dict_get (load_data (services_file st)) service_id = Some service"
      and "dict_get (load_data (staff_file st)) staff_id = Some member"
  shows "snd (create_appointment fmt_price now client_id service_id staff_id day hour remark st)
           = st\<lparr>appointments_file := Some (dict_set (load_data (appointments_file st))
                  (new_appointment_id (load_data (appointments_file st)))
                  (tool_appointment (new_appointment_id (load_data (appointments_file st)))
                     client_id client service_id service staff_id member day hour remark now))\<rparr>"
  using assms by (simp add: create_appointment_def Let_def)

text \<open>
  Claim C1, as the code has it. Neither front end compares a new booking with the
  appointments on file. In a reachable state, a booking that succeeds (by
  \<^verbatim>\<open>POST /book\<close>, or by the \<^verbatim>\<open>create_appointment\<close> tool once client, service and staff
  exist) appends exactly one appointment, scheduled, at the requested date and time, and
  leaves the appointments before it as they were. So the store is free of double
  bookings afterwards exactly when it was before and the new appointment overlaps no
  scheduled appointment of the same staff member on that date.
\<close>

theorem booking_appends_unchecked:
  fixes st :: "('a :: {zero,numeral}) store"
  assumes "reachable st"
  shows "(book_appointment now_client now_apt booking st = (response, st') \<and> resp_success response
            \<longrightarrow>
            (\<exists>new_id apt.
               resp_appointment_id response = Some new_id
               \<and> load_data (appointments_file st') = load_data (appointments_file st) @ [(new_id, apt)]
               \<and> apt_status apt = ''scheduled''
               \<and> apt_date apt = req_date booking \<and> apt_time apt = req_time booking
               \<and> (no_double_booking (map snd (load_data (appointments_file st')))
                    \<longleftrightarrow> no_double_booking (map snd (load_data (appointments_file st)))
                        \<and> list_all (\<lambda>old. \<not> conflict old apt)
                             (map snd (load_data (appointments_file st))))))
         \<and> (dict_get (load_data (clients_file st)) client_id = Some client
              \<and> dict_get (load_data (services_file st)) service_id = Some service
              \<and> dict_get (load_data (staff_file st)) staff_id = Some member
            \<longrightarrow>
            (\<exists>new_id apt.
               load_data (appointments_file
                   (snd (create_appointment fmt_price now client_id service_id staff_id day hour
                           remark st)))
                 = load_data (appointments_file st) @ [(new_id, apt)]
               \<and> apt_staff_id apt = staff_id \<and> apt_status apt = ''scheduled''
               \<and> apt_date apt = day \<and> apt_time apt = hour
               \<and> apt_duration_minutes apt = svc_duration_minutes service
               \<and> (no_double_booking (map snd (load_data (appointments_file
                       (snd (create_appointment fmt_price now client_id service_id staff_id day hour
                               remark st)))))
                    \<longleftrightarrow> no_double_booking (map snd (load_data (appointments_file st)))
                        \<and> list_all (\<lambda>old. \<not> conflict old apt)
                             (map snd (load_data (appointments_file st))))))"
proof -
  let ?appointments = "load_data (appointments_file st)"
  let ?id = "new_appointment_id ?appointments"
  from reachable_well_numbered [OF assms]
  have seq: "sequential_ids ''APT'' ?appointments"
    by (simp add: well_numbered_def)
  have app: "dict_set ?appointments ?id a = ?appointments @ [(?id, a)]" for a
    unfolding new_ids by (rule sequential_ids_new(1) [OF seq])
  show ?thesis
  proof (intro conjI impI)
    assume "book_appointment now_client now_apt booking st = (response, st') \<and> resp_success response"
    then have b: "book_appointment now_client now_apt booking st = (response, st')"
      and s: "resp_success response"
      by simp_all
    from b s show "\<exists>new_id apt.
               resp_appointment_id response = Some new_id
               \<and> load_data (appointments_file st') = ?appointments @ [(new_id, apt)]
               \<and> apt_status apt = ''scheduled''
               \<and> apt_date apt = req_date booking \<and> apt_time apt = req_time booking
               \<and> (no_double_booking (map snd (load_data (appointments_file st')))
                    \<longleftrightarrow> no_double_booking (map snd ?appointments)
                        \<and> list_all (\<lambda>old. \<not> conflict old apt) (map snd ?appointments))"
    proof (rule book_appointment_success)
      fix service_id' service' client_id' clients' st1 staff_id' member' client'
      assume resp: "response = booked ?id service' member' booking"
        and st': "st' = st1\<lparr>appointments_file := Some (dict_set ?appointments ?id
                    (voice_appointment ?id client_id' client' service_id' service' staff_id' member'
                       booking now_apt)),
                clients_file := Some (dict_set clients' client_id' (count_visit client' service'))\<rparr>"
      let ?apt = "voice_appointment ?id client_id' client' service_id' service' staff_id' member'
                    booking now_apt"
      have 1: "resp_appointment_id response = Some ?id"
        by (simp add: resp booked_def)
      have 2: "load_data (appointments_file st') = ?appointments @ [(?id, ?apt)]"
        by (simp add: st' load_data_simps app)
      have 3: "apt_status ?apt = ''scheduled''" "apt_date ?apt = req_date booking"
        "apt_time ?apt = req_time booking"
        by (simp_all add: voice_appointment_def)
      have 4: "no_double_booking (map snd (load_data (appointments_file st')))
                 \<longleftrightarrow> no_double_booking (map snd ?appointments)
                     \<and> list_all (\<lambda>old. \<not> conflict old ?apt) (map snd ?appointments)"
        unfolding 2 by (simp add: no_double_booking_snoc)
      show ?thesis
        apply (rule exI [of _ ?id], rule exI [of _ ?apt])
        using 1 2 3 4 by simp
    qed
  next
    assume "dict_get (load_data (clients_file st)) client_id = Some client
              \<and> dict_get (load_data (services_file st)) service_id = Some service
              \<and> dict_get (load_data (staff_file st)) staff_id = Some member"
    then have c: "dict_get (load_data (clients_file st)) client_id = Some client"
      and v: "dict_get (load_data (services_file st)) service_id = Some service"
      and m: "dict_get (load_data (staff_file st)) staff_id = Some member"
      by simp_all
    let ?st' = "snd (create_appointment fmt_price now client_id service_id staff_id day hour remark st)"
    let ?apt = "tool_appointment ?id client_id client service_id service staff_id member day hour
                  remark now"
    have 2: "load_data (appointments_file ?st') = ?appointments @ [(?id, ?apt)]"
      unfolding create_appointment_created [OF c v m] by (simp add: load_data_simps app)
    have 3: "apt_staff_id ?apt = staff_id" "apt_status ?apt = ''scheduled''" "apt_date ?apt = day"
      "apt_time ?apt = hour" "apt_duration_minutes ?apt = svc_duration_minutes service"
      by (simp_all add: tool_appointment_def)
    have 4: "no_double_booking (map snd (load_data (appointments_file ?st')))
                 \<longleftrightarrow> no_double_booking (map snd ?appointments)
                     \<and> list_all (\<lambda>old. \<not> conflict old ?apt) (map snd ?appointments)"
      unfolding 2 by (simp add: no_double_booking_snoc)
    show "\<exists>new_id apt.
               load_data (appointments_file ?st') = ?appointments @ [(new_id, apt)]
               \<and> apt_staff_id apt = staff_id \<and> apt_status apt = ''scheduled''
               \<and> apt_date apt = day \<and> apt_time apt = hour
               \<and> apt_duration_minutes apt = svc_duration_minutes service
               \<and> (no_double_booking (map snd (load_data (appointments_file ?st')))
                    \<longleftrightarrow> no_double_booking (map snd ?appointments)
                        \<and> list_all (\<lambda>old. \<not> conflict old apt) (map snd ?appointments))"
      apply (rule exI [of _ ?id], rule exI [of _ ?apt])
      using 2 3 4 by simp
  qed
qed

text \<open>
  The first voice booking on the seeded data, and a booking by the tool after it.
\<close>

theorem booking_appends_unchecked_witness:
  "(\<exists>new_id apt.
       resp_appointment_id (fst booking_by_specialty) = Some new_id
       \<and> load_data (appointments_file (snd booking_by_specialty))
           = load_data (appointments_file (initial_store :: int store)) @ [(new_id, apt)]
       \<and> apt_status apt = ''scheduled''
       \<and> apt_date apt = req_date example_booking \<and> apt_time apt = req_time example_booking
       \<and> (no_double_booking (map snd (load_data (appointments_file (snd booking_by_specialty))))
            \<longleftrightarrow> no_double_booking (map snd (load_data (appointments_file (initial_store :: int store))))
                \<and> list_all (\<lambda>old. \<not> conflict old apt)
                     (map snd (load_data (appointments_file (initial_store :: int store))))))
   \<and> (\<exists>new_id apt.
       load_data (appointments_file
           (snd (create_appointment (\<lambda>p. str_int p @ ''.00'') ''t5'' ''CL0001'' ''SVC002'' ''STF001''
                   ''2024-01-02'' ''10:15'' None booked_once)))
         = load_data (appointments_file booked_once) @ [(new_id, apt)]
       \<and> apt_staff_id apt = ''STF001'' \<and> apt_status apt = ''scheduled''
       \<and> apt_date apt = ''2024-01-02'' \<and> apt_time apt = ''10:15''
       \<and> apt_duration_minutes apt = svc_duration_minutes second_service
       \<and> (no_double_booking (map snd (load_data (appointments_file
               (snd (create_appointment (\<lambda>p. str_int p @ ''.00'') ''t5'' ''CL0001'' ''SVC002''
                       ''STF001'' ''2024-01-02'' ''10:15'' None booked_once)))))
            \<longleftrightarrow> no_double_booking (map snd (load_data (appointments_file booked_once)))
                \<and> list_all (\<lambda>old. \<not> conflict old apt)
                     (map snd (load_data (appointments_file booked_once)))))"
proof (rule conjI)
  have p: "book_appointment ''t1'' ''t2'' example_booking initial_store
             = (fst booking_by_specialty, snd booking_by_specialty)
           \<and> resp_success (fst booking_by_specialty)"
    by (rule conjI) (simp add: booking_by_specialty_def, code_simp)
  from booking_appends_unchecked [OF reachable.start, THEN conjunct1, THEN mp, OF p]
  show "\<exists>new_id apt.
       resp_appointment_id (fst booking_by_specialty) = Some new_id
       \<and> load_data (appointments_file (snd booking_by_specialty))
           = load_data (appointments_file (initial_store :: int store)) @ [(new_id, apt)]
       \<and> apt_status apt = ''scheduled''
       \<and> apt_date apt = req_date example_booking \<and> apt_time apt = req_time example_booking
       \<and> (no_double_booking (map snd (load_data (appointments_file (snd booking_by_specialty))))
            \<longleftrightarrow> no_double_booking (map snd (load_data (appointments_file (initial_store :: int store))))
                \<and> list_all (\<lambda>old. \<not> conflict old apt)
                     (map snd (load_data (appointments_file (initial_store :: int store)))))" .
next
  have d: "dict_get (load_data (clients_file booked_once)) ''CL0001'' = Some first_client
           \<and> dict_get (load_data (services_file booked_once)) ''SVC002'' = Some second_service
           \<and> dict_get (load_data (staff_file booked_once)) ''STF001'' = Some STF001"
    by code_simp
  from booking_appends_unchecked [OF reachable_booked_once, THEN conjunct2, THEN mp, OF d]
  show "\<exists>new_id apt.
       load_data (appointments_file
           (snd (create_appointment (\<lambda>p. str_int p @ ''.00'') ''t5'' ''CL0001'' ''SVC002'' ''STF001''
                   ''2024-01-02'' ''10:15'' None booked_once)))
         = load_data (appointments_file booked_once) @ [(new_id, apt)]
       \<and> apt_staff_id apt = ''STF001'' \<and> apt_status apt = ''scheduled''
       \<and> apt_date apt = ''2024-01-02'' \<and> apt_time apt = ''10:15''
       \<and> apt_duration_minutes apt = svc_duration_minutes second_service
       \<and> (no_double_booking (map snd (load_data (appointments_file
               (snd (create_appointment (\<lambda>p. str_int p @ ''.00'') ''t5'' ''CL0001'' ''SVC002''
                       ''STF001'' ''2024-01-02'' ''10:15'' None booked_once)))))
            \<longleftrightarrow> no_double_booking (map snd (load_data (appointments_file booked_once)))
                \<and> list_all (\<lambda>old. \<not> conflict old apt)
                     (map snd (load_data (appointments_file booked_once))))" .
qed

lemma rebooking_appointments:
  "map (\<lambda>(k, a). (k, apt_staff_id a, apt_date a, apt_time a, apt_duration_minutes a, apt_status a))
     (load_data (appointments_file (snd rebooking)))
   = [(''APT0001'', ''STF001'', ''2024-01-02'', ''10:00'', 30, ''scheduled''),
      (''APT0002'', ''STF001'', ''2024-01-02'', ''10:00'', 30, ''scheduled'')]"
  "map (\<lambda>(k, a). (k, apt_staff_id a, apt_date a, apt_time a, apt_duration_minutes a, apt_status a))
     (load_data (appointments_file (snd tool_rebooking)))
   = [(''APT0001'', ''STF001'', ''2024-01-02'', ''10:00'', 30, ''scheduled''),
      (''APT0002'', ''STF001'', ''2024-01-02'', ''10:15'', 45, ''scheduled'')]"
  by code_simp+

text \<open>
  The same caller booking Botox with STF001 twice for 10:00 of the same day by voice,
  and the tool booking Dermal Fillers with STF001 for 10:15 after the first booking:
  both states are reachable, and both hold two overlapping scheduled appointments of
  STF001 on that day.
\<close>

theorem double_booking_reachable:
  "reachable (snd rebooking)
   \<and> \<not> no_double_booking (map snd (load_data (appointments_file (snd rebooking))))
   \<and> reachable (snd tool_rebooking)
   \<and> \<not> no_double_booking (map snd (load_data (appointments_file (snd tool_rebooking))))"
proof (intro conjI)
  have "book_appointment ''t3'' ''t4'' example_booking booked_once = (fst rebooking, snd rebooking)"
    by (simp add: rebooking_def)
  from reachable.book [OF reachable_booked_once this]
  show "reachable (snd rebooking)" .
  have "create_appointment (\<lambda>p. str_int p @ ''.00'') ''t5'' ''CL0001'' ''SVC002'' ''STF001''
          ''2024-01-02'' ''10:15'' None booked_once = (fst tool_rebooking, snd tool_rebooking)"
    by (simp add: tool_rebooking_def)
  from reachable.create [OF reachable_booked_once this]
  show "reachable (snd tool_rebooking)" .
  show "\<not> no_double_booking (map snd (load_data (appointments_file (snd rebooking))))"
    by code_simp
  show "\<not> no_double_booking (map snd (load_data (appointments_file (snd tool_rebooking))))"
    by code_simp
qed

end
